theory Spec2Isabelle
  imports Main "HOL-Library.AList"
begin

section \<open>Bytes and decimal numerals\<close>

text \<open>
  Go strings and byte slices are sequences of bytes; a \<^typ>\<open>string\<close> of HOL is a list
  of 8-bit characters, so the two coincide. Go slices are lists: a nil slice and an empty
  slice are both \<open>[]\<close>, since the code under study only takes their length, indexes them
  and ranges over them.
\<close>

definition byte :: "char \<Rightarrow> nat" where
  "byte c = of_char c"

definition in_range :: "char \<Rightarrow> nat \<Rightarrow> nat \<Rightarrow> bool" where
  "in_range c lo hi = (lo \<le> byte c \<and> byte c \<le> hi)"

definition is_digit :: "char \<Rightarrow> bool" where
  "is_digit c = in_range c 48 57"

fun nat_digits :: "nat \<Rightarrow> string" where
  "nat_digits n =
     (if n < 10 then [''0123456789'' ! n]
      else nat_digits (n div 10) @ [''0123456789'' ! (n mod 10)])"

declare nat_digits.simps [simp del]

text \<open>\<open>strconv.FormatInt(i, 10)\<close>, which is also what \<open>%d\<close> and \<open>%v\<close> print for an integer.\<close>

definition FormatInt :: "int \<Rightarrow> string" where
  "FormatInt i = (if i < 0 then CHR ''-'' # nat_digits (nat (- i)) else nat_digits (nat i))"

section \<open>The JSON decoder of the standard library\<close>

text \<open>
  \<open>encoding/json\<close> is not part of the repository, but the error normalizer is defined by
  which of its \<open>Unmarshal\<close> calls succeed. The model follows the library: a byte-wise
  scanner accepts exactly the JSON texts (with the library's limit of 10000 nested
  containers), string literals are unquoted as \<open>unquoteBytes\<close> does (escapes, UTF-16
  surrogate pairs, U+FFFD for a lone surrogate and for every byte of invalid UTF-8), and a
  value is then stored into a Go target type. A mismatch between the JSON value and the
  target makes \<open>Unmarshal\<close> return an error while it goes on decoding the rest.
\<close>

datatype json =
    JNull
  | JBool bool
  | JNumber string
  | JString string
  | JArray "json list"
  | JObject "(string \<times> json) list"

datatype token =
    TLBrace | TRBrace | TLBrack | TRBrack | TColon | TComma
  | TString string | TNumber string | TTrue | TFalse | TNull

subsection \<open>Runes and UTF-8\<close>

definition replacement_char :: string where
  "replacement_char = [CHR 0xEF, CHR 0xBF, CHR 0xBD]"

text \<open>\<open>utf8.EncodeRune\<close> for a rune that is neither a surrogate nor above U+10FFFF.\<close>

definition utf8_encode :: "nat \<Rightarrow> string" where
  "utf8_encode r =
     (if r < 0x80 then [char_of r]
      else if r < 0x800 then [char_of (0xC0 + r div 64), char_of (0x80 + r mod 64)]
      else if r < 0x10000 then
        [char_of (0xE0 + r div 4096), char_of (0x80 + (r div 64) mod 64), char_of (0x80 + r mod 64)]
      else
        [char_of (0xF0 + r div 262144), char_of (0x80 + (r div 4096) mod 64),
         char_of (0x80 + (r div 64) mod 64), char_of (0x80 + r mod 64)])"

definition is_high_surrogate :: "nat \<Rightarrow> bool" where
  "is_high_surrogate r = (0xD800 \<le> r \<and> r < 0xDC00)"

definition is_low_surrogate :: "nat \<Rightarrow> bool" where
  "is_low_surrogate r = (0xDC00 \<le> r \<and> r < 0xE000)"

definition combine_surrogates :: "nat \<Rightarrow> nat \<Rightarrow> nat" where
  "combine_surrogates hi lo = 0x10000 + (hi - 0xD800) * 0x400 + (lo - 0xDC00)"

definition hex_val :: "char \<Rightarrow> nat option" where
  "hex_val c =
     (if in_range c 48 57 then Some (byte c - 48)
      else if in_range c 97 102 then Some (byte c - 87)
      else if in_range c 65 70 then Some (byte c - 55)
      else None)"

text \<open>
  The first byte of a multi-byte UTF-8 sequence: the number of continuation bytes and the
  range the first of them must lie in (\<open>utf8.first\<close> and \<open>utf8.acceptRanges\<close>). Every
  later continuation byte lies in 0x80..0xBF.
\<close>

definition utf8_lead :: "char \<Rightarrow> (nat \<times> nat \<times> nat) option" where
  "utf8_lead c =
     (let b = byte c in
      if 0xC2 \<le> b \<and> b \<le> 0xDF then Some (1, 0x80, 0xBF)
      else if b = 0xE0 then Some (2, 0xA0, 0xBF)
      else if b = 0xED then Some (2, 0x80, 0x9F)
      else if 0xE1 \<le> b \<and> b \<le> 0xEF then Some (2, 0x80, 0xBF)
      else if b = 0xF0 then Some (3, 0x90, 0xBF)
      else if 0xF1 \<le> b \<and> b \<le> 0xF3 then Some (3, 0x80, 0xBF)
      else if b = 0xF4 then Some (3, 0x80, 0x8F)
      else None)"

subsection \<open>The scanner\<close>

datatype numstate = NNeg | NZero | NInt | NDot | NFrac | NE | NESign | NExp

text \<open>
  Inside a string literal the scanner is in one of four places: between characters, after a
  backslash, inside the four hexadecimal digits of \<open>\u\<close> (digits still to come, value so far),
  or inside a multi-byte UTF-8 sequence (bytes read so far, continuation bytes still to
  come, range of the next byte).
\<close>

datatype strstate =
    SPlain
  | SEsc
  | SHex nat nat
  | SUtf string nat nat nat

text \<open>
  \<open>LStr out pend s\<close>: \<open>out\<close> is the unquoted text so far, reversed; \<open>pend\<close> is a high
  surrogate read from a \<open>\u\<close> escape that still waits for its low surrogate.
\<close>

datatype lstate =
    LStart
  | LStr string "nat option" strstate
  | LNum numstate string
  | LLit string token

definition flush_pending :: "nat option \<Rightarrow> string \<Rightarrow> string" where
  "flush_pending pend out = (case pend of None \<Rightarrow> out | Some _ \<Rightarrow> rev replacement_char @ out)"

text \<open>A rune completed by a \<open>\u\<close> escape.\<close>

definition emit_rune :: "string \<Rightarrow> nat option \<Rightarrow> nat \<Rightarrow> lstate" where
  "emit_rune out pend r =
     (case pend of
        Some hi \<Rightarrow>
          if is_low_surrogate r then LStr (rev (utf8_encode (combine_surrogates hi r)) @ out) None SPlain
          else if is_high_surrogate r then LStr (rev replacement_char @ out) (Some r) SPlain
          else LStr (rev (utf8_encode r) @ rev replacement_char @ out) None SPlain
      | None \<Rightarrow>
          if is_high_surrogate r then LStr out (Some r) SPlain
          else if is_low_surrogate r then LStr (rev replacement_char @ out) None SPlain
          else LStr (rev (utf8_encode r) @ out) None SPlain)"

text \<open>A byte read between characters of a string literal; no surrogate is pending.\<close>

definition plain_step :: "string \<Rightarrow> char \<Rightarrow> (lstate \<times> token list) option" where
  "plain_step out c =
     (if c = CHR 0x22 then Some (LStart, [TString (rev out)])
      else if c = CHR 0x5C then Some (LStr out None SEsc, [])
      else if byte c < 0x20 then None
      else if byte c < 0x80 then Some (LStr (c # out) None SPlain, [])
      else (case utf8_lead c of
              None \<Rightarrow> Some (LStr (rev replacement_char @ out) None SPlain, [])
            | Some (n, lo, hi) \<Rightarrow> Some (LStr out None (SUtf [c] n lo hi), [])))"

definition esc_char :: "char \<Rightarrow> char option" where
  "esc_char c =
     (if c = CHR 0x22 \<or> c = CHR 0x5C \<or> c = CHR ''/'' then Some c
      else if c = CHR ''b'' then Some (CHR 0x08)
      else if c = CHR ''f'' then Some (CHR 0x0C)
      else if c = CHR ''n'' then Some (CHR 0x0A)
      else if c = CHR ''r'' then Some (CHR 0x0D)
      else if c = CHR ''t'' then Some (CHR 0x09)
      else None)"

definition str_step :: "string \<Rightarrow> nat option \<Rightarrow> strstate \<Rightarrow> char \<Rightarrow> (lstate \<times> token list) option" where
  "str_step out pend s c =
     (case s of
        SPlain \<Rightarrow>
          if c = CHR 0x5C then Some (LStr out pend SEsc, [])
          else plain_step (flush_pending pend out) c
      | SEsc \<Rightarrow>
          if c = CHR ''u'' then Some (LStr out pend (SHex 4 0), [])
          else (case esc_char c of
                  None \<Rightarrow> None
                | Some d \<Rightarrow> Some (LStr (d # flush_pending pend out) None SPlain, []))
      | SHex n v \<Rightarrow>
          (case hex_val c of
             None \<Rightarrow> None
           | Some h \<Rightarrow>
               if n \<le> 1 then Some (emit_rune out pend (16 * v + h), [])
               else Some (LStr out pend (SHex (n - 1) (16 * v + h)), []))
      | SUtf buf n lo hi \<Rightarrow>
          if in_range c lo hi then
            (if n \<le> 1 then Some (LStr (rev (buf @ [c]) @ out) None SPlain, [])
             else Some (LStr out None (SUtf (buf @ [c]) (n - 1) 0x80 0xBF), []))
          else plain_step (concat (replicate (length buf) (rev replacement_char)) @ out) c)"

definition is_space :: "char \<Rightarrow> bool" where
  "is_space c = (c = CHR '' '' \<or> c = CHR 0x09 \<or> c = CHR 0x0D \<or> c = CHR 0x0A)"

definition start_step :: "char \<Rightarrow> (lstate \<times> token list) option" where
  "start_step c =
     (if is_space c then Some (LStart, [])
      else if c = CHR ''{'' then Some (LStart, [TLBrace])
      else if c = CHR ''}'' then Some (LStart, [TRBrace])
      else if c = CHR ''['' then Some (LStart, [TLBrack])
      else if c = CHR '']'' then Some (LStart, [TRBrack])
      else if c = CHR '':'' then Some (LStart, [TColon])
      else if c = CHR '','' then Some (LStart, [TComma])
      else if c = CHR 0x22 then Some (LStr [] None SPlain, [])
      else if c = CHR ''-'' then Some (LNum NNeg [c], [])
      else if c = CHR ''0'' then Some (LNum NZero [c], [])
      else if is_digit c then Some (LNum NInt [c], [])
      else if c = CHR ''t'' then Some (LLit ''rue'' TTrue, [])
      else if c = CHR ''f'' then Some (LLit ''alse'' TFalse, [])
      else if c = CHR ''n'' then Some (LLit ''ull'' TNull, [])
      else None)"

text \<open>A number literal ends at the first byte that cannot continue it.\<close>

definition end_number :: "string \<Rightarrow> char \<Rightarrow> (lstate \<times> token list) option" where
  "end_number lit c =
     (case start_step c of
        None \<Rightarrow> None
      | Some (st, toks) \<Rightarrow> Some (st, TNumber (rev lit) # toks))"

definition is_exp :: "char \<Rightarrow> bool" where
  "is_exp c = (c = CHR ''e'' \<or> c = CHR ''E'')"

definition num_step :: "numstate \<Rightarrow> string \<Rightarrow> char \<Rightarrow> (lstate \<times> token list) option" where
  "num_step ns lit c =
     (case ns of
        NNeg \<Rightarrow>
          if c = CHR ''0'' then Some (LNum NZero (c # lit), [])
          else if is_digit c then Some (LNum NInt (c # lit), [])
          else None
      | NZero \<Rightarrow>
          if c = CHR ''.'' then Some (LNum NDot (c # lit), [])
          else if is_exp c then Some (LNum NE (c # lit), [])
          else end_number lit c
      | NInt \<Rightarrow>
          if is_digit c then Some (LNum NInt (c # lit), [])
          else if c = CHR ''.'' then Some (LNum NDot (c # lit), [])
          else if is_exp c then Some (LNum NE (c # lit), [])
          else end_number lit c
      | NDot \<Rightarrow> if is_digit c then Some (LNum NFrac (c # lit), []) else None
      | NFrac \<Rightarrow>
          if is_digit c then Some (LNum NFrac (c # lit), [])
          else if is_exp c then Some (LNum NE (c # lit), [])
          else end_number lit c
      | NE \<Rightarrow>
          if c = CHR ''+'' \<or> c = CHR ''-'' then Some (LNum NESign (c # lit), [])
          else if is_digit c then Some (LNum NExp (c # lit), [])
          else None
      | NESign \<Rightarrow> if is_digit c then Some (LNum NExp (c # lit), []) else None
      | NExp \<Rightarrow> if is_digit c then Some (LNum NExp (c # lit), []) else end_number lit c)"

definition lex_step :: "lstate \<Rightarrow> char \<Rightarrow> (lstate \<times> token list) option" where
  "lex_step st c =
     (case st of
        LStart \<Rightarrow> start_step c
      | LStr out pend s \<Rightarrow> str_step out pend s c
      | LNum ns lit \<Rightarrow> num_step ns lit c
      | LLit rest tok \<Rightarrow>
          (case rest of
             [] \<Rightarrow> None
           | x # xs \<Rightarrow>
               if c \<noteq> x then None
               else if xs = [] then Some (LStart, [tok])
               else Some (LLit xs tok, [])))"

definition num_final :: "numstate \<Rightarrow> bool" where
  "num_final ns = (ns = NZero \<or> ns = NInt \<or> ns = NFrac \<or> ns = NExp)"

text \<open>The tokens of a text, or \<open>None\<close> at a byte no JSON text has there. \<open>acc\<close> is reversed.\<close>

fun lex :: "lstate \<Rightarrow> token list \<Rightarrow> string \<Rightarrow> token list option" where
  "lex st acc [] =
     (case st of
        LStart \<Rightarrow> Some (rev acc)
      | LNum ns lit \<Rightarrow> if num_final ns then Some (rev (TNumber (rev lit) # acc)) else None
      | _ \<Rightarrow> None)"
| "lex st acc (c # cs) =
     (case lex_step st c of
        None \<Rightarrow> None
      | Some (st', toks) \<Rightarrow> lex st' (rev toks @ acc) cs)"

subsection \<open>The structure of a JSON text\<close>

text \<open>
  An enclosing container that waits for its next member: an array with the elements read
  so far (reversed), or an object with its members so far (reversed) and the key whose
  value is being read.
\<close>

datatype frame =
    FArr "json list"
  | FObj "(string \<times> json) list" string

datatype pstate =
    PValue "frame list"
  | PFirstElem "frame list"
  | PFirstKey "frame list"
  | PKey "(string \<times> json) list" "frame list"
  | PColon "(string \<times> json) list" string "frame list"
  | PDone json "frame list"

definition maxNestingDepth :: nat where
  "maxNestingDepth = 10000"

text \<open>The first token of a value that stands inside the containers \<open>ctx\<close>.\<close>

definition value_start :: "frame list \<Rightarrow> token \<Rightarrow> pstate option" where
  "value_start ctx t =
     (case t of
        TString s \<Rightarrow> Some (PDone (JString s) ctx)
      | TNumber l \<Rightarrow> Some (PDone (JNumber l) ctx)
      | TTrue \<Rightarrow> Some (PDone (JBool True) ctx)
      | TFalse \<Rightarrow> Some (PDone (JBool False) ctx)
      | TNull \<Rightarrow> Some (PDone JNull ctx)
      | TLBrack \<Rightarrow> if length ctx < maxNestingDepth then Some (PFirstElem ctx) else None
      | TLBrace \<Rightarrow> if length ctx < maxNestingDepth then Some (PFirstKey ctx) else None
      | _ \<Rightarrow> None)"

definition parse_step :: "pstate \<Rightarrow> token \<Rightarrow> pstate option" where
  "parse_step ps t =
     (case ps of
        PValue ctx \<Rightarrow> value_start ctx t
      | PFirstElem ctx \<Rightarrow>
          if t = TRBrack then Some (PDone (JArray []) ctx) else value_start (FArr [] # ctx) t
      | PFirstKey ctx \<Rightarrow>
          (case t of
             TRBrace \<Rightarrow> Some (PDone (JObject []) ctx)
           | TString k \<Rightarrow> Some (PColon [] k ctx)
           | _ \<Rightarrow> None)
      | PKey ms ctx \<Rightarrow> (case t of TString k \<Rightarrow> Some (PColon ms k ctx) | _ \<Rightarrow> None)
      | PColon ms k ctx \<Rightarrow> if t = TColon then Some (PValue (FObj ms k # ctx)) else None
      | PDone v ctx \<Rightarrow>
          (case ctx of
             [] \<Rightarrow> None
           | FArr es # up \<Rightarrow>
               if t = TComma then Some (PValue (FArr (v # es) # up))
               else if t = TRBrack then Some (PDone (JArray (rev (v # es))) up)
               else None
           | FObj ms k # up \<Rightarrow>
               if t = TComma then Some (PKey ((k, v) # ms) up)
               else if t = TRBrace then Some (PDone (JObject (rev ((k, v) # ms))) up)
               else None))"

fun parse_tokens :: "pstate \<Rightarrow> token list \<Rightarrow> json option" where
  "parse_tokens ps [] = (case ps of PDone v [] \<Rightarrow> Some v | _ \<Rightarrow> None)"
| "parse_tokens ps (t # ts) =
     (case parse_step ps t of None \<Rightarrow> None | Some ps' \<Rightarrow> parse_tokens ps' ts)"

text \<open>The value of a JSON text; \<open>None\<close> is the library's \<open>SyntaxError\<close>.\<close>

definition json_parse :: "string \<Rightarrow> json option" where
  "json_parse data =
     (case lex LStart [] data of
        None \<Rightarrow> None
      | Some toks \<Rightarrow> parse_tokens (PValue []) toks)"

subsection \<open>Go maps\<close>

text \<open>
  A Go map with string keys is the list of its entries sorted by key (bytewise, as Go
  compares strings), so that two maps with the same entries are equal lists; \<open>None\<close> is
  the nil map. The order in which \<open>range\<close> visits the entries is not this order: Go leaves
  it unspecified, and the model takes it from a ranking of the keys that is a parameter
  (entries are visited by increasing rank), so that every order can occur.
\<close>

type_synonym 'v gomap = "(string \<times> 'v) list option"

fun bytes_less :: "string \<Rightarrow> string \<Rightarrow> bool" where
  "bytes_less [] [] = False"
| "bytes_less [] (y # ys) = True"
| "bytes_less (x # xs) [] = False"
| "bytes_less (x # xs) (y # ys) = (byte x < byte y \<or> (x = y \<and> bytes_less xs ys))"

text \<open>\<open>m[k] = v\<close> on the entries of a map.\<close>

fun map_assign :: "string \<Rightarrow> 'v \<Rightarrow> (string \<times> 'v) list \<Rightarrow> (string \<times> 'v) list" where
  "map_assign k v [] = [(k, v)]"
| "map_assign k v ((k', v') # kvs) =
     (if k = k' then (k, v) # kvs
      else if bytes_less k k' then (k, v) # (k', v') # kvs
      else (k', v') # map_assign k v kvs)"

definition entries :: "'v gomap \<Rightarrow> (string \<times> 'v) list" where
  "entries m = (case m of None \<Rightarrow> [] | Some kvs \<Rightarrow> kvs)"

definition range_map :: "(string \<Rightarrow> nat) \<Rightarrow> 'v gomap \<Rightarrow> (string \<times> 'v) list" where
  "range_map rank m = sort_key (\<lambda>kv. rank (fst kv)) (entries m)"

definition lookup :: "'v gomap \<Rightarrow> string \<Rightarrow> 'v option" where
  "lookup m k = map_of (entries m) k"

subsection \<open>Storing a JSON value into a Go target\<close>

text \<open>
  Each function takes the JSON value and the target's present content and returns whether
  the value fitted (\<open>False\<close>: \<open>Unmarshal\<close> will return an \<open>UnmarshalTypeError\<close>) and the
  target's new content. \<open>null\<close> leaves a string or an integer as it is and sets a slice or
  a map to nil.
\<close>

definition store_string :: "json \<Rightarrow> string \<Rightarrow> bool \<times> string" where
  "store_string v old =
     (case v of JString s \<Rightarrow> (True, s) | JNull \<Rightarrow> (True, old) | _ \<Rightarrow> (False, old))"

text \<open>
  An element of a JSON array is stored into the slice's element at the same index when the
  slice has one, and into a fresh element otherwise.
\<close>

definition store_strings :: "json \<Rightarrow> string list \<Rightarrow> bool \<times> string list" where
  "store_strings v old =
     (case v of
        JNull \<Rightarrow> (True, [])
      | JArray xs \<Rightarrow>
          (let rs = map (\<lambda>(i, x). store_string x (if i < length old then old ! i else []))
                        (enumerate 0 xs)
           in (list_all fst rs, map snd rs))
      | _ \<Rightarrow> (False, old))"

text \<open>
  A map element is decoded into a fresh zero value and then assigned, member by member in
  the order of the text, so the last of several equal keys wins. \<open>f\<close> stores into that
  fresh element.
\<close>

fun store_members ::
  "(json \<Rightarrow> bool \<times> 'v) \<Rightarrow> (string \<times> json) list \<Rightarrow> bool \<times> (string \<times> 'v) list \<Rightarrow> bool \<times> (string \<times> 'v) list" where
  "store_members f [] acc = acc"
| "store_members f (kv # ms) acc =
     store_members f ms (fst acc \<and> fst (f (snd kv)), map_assign (fst kv) (snd (f (snd kv))) (snd acc))"

definition store_map :: "(json \<Rightarrow> bool \<times> 'v) \<Rightarrow> json \<Rightarrow> 'v gomap \<Rightarrow> bool \<times> 'v gomap" where
  "store_map f v old =
     (case v of
        JNull \<Rightarrow> (True, None)
      | JObject ms \<Rightarrow>
          (let r = store_members f ms (True, entries old) in (fst r, Some (snd r)))
      | _ \<Rightarrow> (False, old))"

text \<open>
  The key of an object member selects a struct field when the two names are equal after
  folding (\<open>foldName\<close>): ASCII letters to upper case, and the two runes whose case orbit
  holds an ASCII letter (U+017F, long s, and U+212A, the Kelvin sign) to that letter.
\<close>

definition to_upper :: "char \<Rightarrow> char" where
  "to_upper c = (if in_range c 97 122 then char_of (byte c - 32) else c)"

fun foldName :: "string \<Rightarrow> string" where
  "foldName [] = []"
| "foldName (c # cs) =
     (if c = CHR 0xC5 \<and> take 1 cs = [CHR 0xBF] then CHR ''S'' # foldName (drop 1 cs)
      else if c = CHR 0xE2 \<and> take 2 cs = [CHR 0x84, CHR 0xAA] then CHR ''K'' # foldName (drop 2 cs)
      else to_upper c # foldName cs)"

definition is_field :: "string \<Rightarrow> string \<Rightarrow> bool" where
  "is_field name key = (foldName key = foldName name)"

text \<open>
  A struct is filled member by member; a member whose key names no field is skipped.
  \<open>f\<close> stores one member into the struct.
\<close>

fun store_fields :: "(string \<Rightarrow> json \<Rightarrow> 's \<Rightarrow> bool \<times> 's) \<Rightarrow> (string \<times> json) list \<Rightarrow> bool \<times> 's \<Rightarrow> bool \<times> 's" where
  "store_fields f [] acc = acc"
| "store_fields f (kv # ms) acc =
     (let r = f (fst kv) (snd kv) (snd acc) in store_fields f ms (fst acc \<and> fst r, snd r))"

definition store_struct :: "(string \<Rightarrow> json \<Rightarrow> 's \<Rightarrow> bool \<times> 's) \<Rightarrow> json \<Rightarrow> 's \<Rightarrow> bool \<times> 's" where
  "store_struct f v old =
     (case v of
        JNull \<Rightarrow> (True, old)
      | JObject ms \<Rightarrow> store_fields f ms (True, old)
      | _ \<Rightarrow> (False, old))"

text \<open>
  \<open>json.Unmarshal(data, &target)\<close>: the first component is \<open>err == nil\<close>. A text that is
  not JSON leaves the target as it was.
\<close>

definition Unmarshal :: "(json \<Rightarrow> 't \<Rightarrow> bool \<times> 't) \<Rightarrow> string \<Rightarrow> 't \<Rightarrow> bool \<times> 't" where
  "Unmarshal store data target =
     (case json_parse data of None \<Rightarrow> (False, target) | Some v \<Rightarrow> store v target)"

section \<open>Errors\<close>

text \<open>
  \<open>APIError\<close> embeds a \<open>GoBitpinError\<close> whose \<open>Err\<close> the normalizer never sets; the record
  keeps its \<open>Message\<close>.
\<close>

record APIError =
  Message :: string
  StatusCode :: int
  Details :: "string list gomap"

text \<open>
  The error values of the package. \<open>ExtError\<close> is an error made by \<open>fmt.Errorf\<close> or by a
  library, named by the text the source gives it (the library's own wording is not
  modelled). \<open>GoBitpinError\<close> has a message and a wrapped error, \<open>RequestError\<close> a message,
  a wrapped error and its operation.
\<close>

datatype error =
    ExtError string
  | GoBitpinError string "error option"
  | RequestError string "error option" string
  | ApiError APIError

section \<open>The error normalizer\<close>

definition formatErrorDetails :: "(string \<Rightarrow> nat) \<Rightarrow> string list gomap \<Rightarrow> string" where
  "formatErrorDetails rank details =
     foldl (\<lambda>msg kv.
              case snd kv of
                [] \<Rightarrow> msg
              | e # _ \<Rightarrow> (if msg \<noteq> [] then msg @ ''; '' else msg) @ fst kv @ '': '' @ e)
           [] (range_map rank details)"

definition api_message :: "int \<Rightarrow> string \<Rightarrow> string" where
  "api_message statusCode s = ''API error (status '' @ FormatInt statusCode @ ''): '' @ s"

definition mk_api_error :: "(string \<Rightarrow> nat) \<Rightarrow> int \<Rightarrow> string list gomap \<Rightarrow> APIError" where
  "mk_api_error rank statusCode details =
     \<lparr>Message = api_message statusCode (formatErrorDetails rank details),
      StatusCode = statusCode, Details = details\<rparr>"

text \<open>The anonymous struct of the third attempt.\<close>

record errResp =
  Detail :: string
  Code :: string
  Messages :: "string gomap"

definition store_errResp_field :: "string \<Rightarrow> json \<Rightarrow> errResp \<Rightarrow> bool \<times> errResp" where
  "store_errResp_field key v r =
     (if is_field ''detail'' key then
        (let s = store_string v (Detail r) in (fst s, r\<lparr>Detail := snd s\<rparr>))
      else if is_field ''code'' key then
        (let s = store_string v (Code r) in (fst s, r\<lparr>Code := snd s\<rparr>))
      else if is_field ''messages'' key then
        (let s = store_map (\<lambda>x. store_string x []) v (Messages r) in (fst s, r\<lparr>Messages := snd s\<rparr>))
      else (True, r))"

text \<open>\<open>for k, v := range m { details[k] = []string{v} }\<close>\<close>

definition wrap_into :: "(string \<Rightarrow> nat) \<Rightarrow> string gomap \<Rightarrow> (string \<times> string list) list \<Rightarrow> (string \<times> string list) list" where
  "wrap_into rank m details = fold (\<lambda>kv d. map_assign (fst kv) [snd kv] d) (range_map rank m) details"

definition raw_api_error :: "int \<Rightarrow> string \<Rightarrow> APIError" where
  "raw_api_error statusCode respBody =
     \<lparr>Message = api_message statusCode respBody, StatusCode = statusCode,
      Details = Some [(''raw'', [respBody])]\<rparr>"

definition parseErrorResponse :: "(string \<Rightarrow> nat) \<Rightarrow> int \<Rightarrow> string \<Rightarrow> APIError" where
  "parseErrorResponse rank statusCode respBody =
     (let r1 = Unmarshal (store_map (\<lambda>v. store_strings v [])) respBody None in
      if fst r1 then mk_api_error rank statusCode (snd r1)
      else
        let r2 = Unmarshal (store_map (\<lambda>v. store_string v [])) respBody None in
        if fst r2 then mk_api_error rank statusCode (Some (wrap_into rank (snd r2) []))
        else
          let r3 = Unmarshal (store_struct store_errResp_field) respBody
                     \<lparr>Detail = [], Code = [], Messages = None\<rparr> in
          if fst r3 then
            mk_api_error rank statusCode
              (Some (wrap_into rank (Messages (snd r3))
                 ((if Code (snd r3) \<noteq> [] then map_assign ''code'' [Code (snd r3)] else id)
                    ((if Detail (snd r3) \<noteq> [] then map_assign ''detail'' [Detail (snd r3)] else id) []))))
          else raw_api_error statusCode respBody)"

section \<open>The query encoder\<close>

text \<open>
  \<open>StructToURLParams\<close> reads its argument by reflection. A struct is the list of its
  fields in declaration order, each with the text of its \<open>json\<close> tag (the whole tag, as
  \<open>Tag.Get\<close> returns it) and its value. Field values are strings, integers, booleans and
  slices of these, the kinds the parameter structs of the repository and the claims use;
  floating-point fields are not modelled. Any other input is \<open>NotStruct\<close>.
\<close>

datatype gvalue =
    VString string
  | VInt int
  | VBool bool
  | VSlice "gvalue list"

datatype goval =
    Struct "(string \<times> gvalue) list"
  | StringMap "(string \<times> string) list"
  | NotStruct

definition FormatBool :: "bool \<Rightarrow> string" where
  "FormatBool b = (if b then ''true'' else ''false'')"

definition join :: "string \<Rightarrow> string list \<Rightarrow> string" where
  "join sep xs = (case xs of [] \<Rightarrow> [] | x # rest \<Rightarrow> x @ concat (map (\<lambda>y. sep @ y) rest))"

text \<open>\<open>fmt.Sprintf("%v", x)\<close>\<close>

fun format_v :: "gvalue \<Rightarrow> string" where
  "format_v (VString s) = s"
| "format_v (VInt i) = FormatInt i"
| "format_v (VBool b) = FormatBool b"
| "format_v (VSlice xs) = ''['' @ join '' '' (map format_v xs) @ '']''"

text \<open>
  \<open>reflect.Value.IsZero\<close>. A slice is zero when it is nil; an empty slice that is not nil
  is not zero but adds no value either, so both are the empty list here.
\<close>

fun IsZero :: "gvalue \<Rightarrow> bool" where
  "IsZero (VString s) = (s = [])"
| "IsZero (VInt i) = (i = 0)"
| "IsZero (VBool b) = (\<not> b)"
| "IsZero (VSlice xs) = (xs = [])"

text \<open>\<open>url.Values\<close> is a \<open>map[string][]string\<close>; \<open>Add\<close> appends to the values of a key.\<close>

definition Add :: "string \<Rightarrow> string \<Rightarrow> (string \<times> string list) list \<Rightarrow> (string \<times> string list) list" where
  "Add key v vals =
     map_assign key ((case map_of vals key of None \<Rightarrow> [] | Some vs \<Rightarrow> vs) @ [v]) vals"

text \<open>One turn of the loop over the fields.\<close>

definition add_field :: "string \<times> gvalue \<Rightarrow> (string \<times> string list) list \<Rightarrow> (string \<times> string list) list" where
  "add_field f vals =
     (let key = fst f; v = snd f in
      if key = [] \<or> key = ''-'' then vals
      else if IsZero v then vals
      else
        (case v of
           VSlice xs \<Rightarrow> if length xs > 0 then fold (\<lambda>x. Add key (format_v x)) xs vals else vals
         | VInt i \<Rightarrow> if i \<noteq> 0 then Add key (FormatInt i) vals else vals
         | VBool b \<Rightarrow> Add key (FormatBool b) vals
         | VString s \<Rightarrow> if s \<noteq> [] then Add key (format_v v) vals else vals))"

definition is_alnum :: "char \<Rightarrow> bool" where
  "is_alnum c = (in_range c 97 122 \<or> in_range c 65 90 \<or> in_range c 48 57)"

definition upperhex :: "nat \<Rightarrow> char" where
  "upperhex n = ''0123456789ABCDEF'' ! (n mod 16)"

text \<open>\<open>url.QueryEscape\<close>\<close>

definition escape_byte :: "char \<Rightarrow> string" where
  "escape_byte c =
     (if is_alnum c \<or> c = CHR ''-'' \<or> c = CHR ''_'' \<or> c = CHR ''.'' \<or> c = CHR ''~'' then [c]
      else if c = CHR '' '' then ''+''
      else [CHR ''%'', upperhex (byte c div 16), upperhex (byte c)])"

definition QueryEscape :: "string \<Rightarrow> string" where
  "QueryEscape s = concat (map escape_byte s)"

text \<open>\<open>Values.Encode\<close>: keys in sorted order, which is the order of the entries.\<close>

definition Encode :: "(string \<times> string list) list \<Rightarrow> string" where
  "Encode vals =
     foldl (\<lambda>buf kv.
              foldl (\<lambda>buf v. (if buf \<noteq> [] then buf @ ''&'' else buf)
                                @ QueryEscape (fst kv) @ ''='' @ QueryEscape v)
                    buf (snd kv))
           [] vals"

definition StructToURLParams :: "goval \<Rightarrow> error + string" where
  "StructToURLParams inputStruct =
     (case inputStruct of
        Struct fs \<Rightarrow> Inr (Encode (fold add_field fs []))
      | _ \<Rightarrow> Inl (ExtError ''input must be a struct''))"

section \<open>The token codec\<close>

text \<open>
  A \<open>time.Time\<close> is the number of nanoseconds since the Unix epoch and a \<open>time.Duration\<close>
  a number of nanoseconds. \<open>Unix\<close> is the whole number of seconds (rounded down), \<open>Add\<close> is
  addition. Go's \<open>int\<close> and \<open>int64\<close> are unbounded integers here: an expiry is checked to
  fit 64 bits when it is decoded, and the comparisons below cannot overflow.
\<close>

definition Second :: int where
  "Second = 1000000000"

definition Unix :: "int \<Rightarrow> int" where
  "Unix t = t div Second"

record JWT =
  TokenType :: string
  Exp :: int
  Jti :: string
  UserId :: int
  Ip :: "string list"
  ApiCredentialId :: int

text \<open>\<open>now\<close> is what \<open>time.Now()\<close> returned.\<close>

definition IsExpired :: "int \<Rightarrow> JWT \<Rightarrow> bool" where
  "IsExpired now j = (Exp j < Unix now)"

definition IsExpiredIn :: "int \<Rightarrow> JWT \<Rightarrow> int \<Rightarrow> bool" where
  "IsExpiredIn now j t = (Exp j < Unix (now + t))"

text \<open>\<open>strconv.ParseInt(s, 10, 64)\<close>\<close>

definition ParseInt :: "string \<Rightarrow> int option" where
  "ParseInt s =
     (let neg = (take 1 s = ''-'');
          ds = (if neg \<or> take 1 s = ''+'' then drop 1 s else s);
          n = foldl (\<lambda>a c. 10 * a + (int (byte c) - 48)) 0 ds;
          i = (if neg then - n else n)
      in if ds = [] \<or> \<not> list_all is_digit ds then None
         else if - (2 ^ 63) \<le> i \<and> i < 2 ^ 63 then Some i
         else None)"

definition store_int :: "json \<Rightarrow> int \<Rightarrow> bool \<times> int" where
  "store_int v old =
     (case v of
        JNumber lit \<Rightarrow> (case ParseInt lit of None \<Rightarrow> (False, old) | Some i \<Rightarrow> (True, i))
      | JNull \<Rightarrow> (True, old)
      | _ \<Rightarrow> (False, old))"

definition store_JWT_field :: "string \<Rightarrow> json \<Rightarrow> JWT \<Rightarrow> bool \<times> JWT" where
  "store_JWT_field key v j =
     (if is_field ''token_type'' key then
        (let s = store_string v (TokenType j) in (fst s, j\<lparr>TokenType := snd s\<rparr>))
      else if is_field ''exp'' key then
        (let s = store_int v (Exp j) in (fst s, j\<lparr>Exp := snd s\<rparr>))
      else if is_field ''jti'' key then
        (let s = store_string v (Jti j) in (fst s, j\<lparr>Jti := snd s\<rparr>))
      else if is_field ''user_id'' key then
        (let s = store_int v (UserId j) in (fst s, j\<lparr>UserId := snd s\<rparr>))
      else if is_field ''ip'' key then
        (let s = store_strings v (Ip j) in (fst s, j\<lparr>Ip := snd s\<rparr>))
      else if is_field ''api_credential_id'' key then
        (let s = store_int v (ApiCredentialId j) in (fst s, j\<lparr>ApiCredentialId := snd s\<rparr>))
      else (True, j))"

section \<open>The environment\<close>

text \<open>
  What the client does not compute itself is a parameter of the model:
  \<^item> \<open>time_Now e k\<close> is the result of the \<open>k\<close>-th call of \<open>time.Now()\<close>;
  \<^item> \<open>ParseUnverified e s\<close> is the outcome of the JWT library on the token \<open>s\<close>, followed by
    \<open>json.Marshal\<close> of the claims it found;
  \<^item> \<open>json_Marshal e b\<close> is \<open>json.Marshal\<close> of a request body (\<open>None\<close>: it fails);
  \<^item> \<open>NewRequest_fails e method url\<close> tells whether \<open>http.NewRequest\<close> rejects them;
  \<^item> \<open>http_Do e sent req\<close> is the answer of the HTTP client (with its transport and its
    timeout) to \<open>req\<close> after the requests \<open>sent\<close>; \<open>None\<close> is a transport failure;
  \<^item> \<open>range_rank e\<close> orders the iterations over a map.
\<close>

datatype claims_result = ParseFailed | ClaimsNotMap | MarshalFailed | ClaimsJSON string

record http_request =
  req_method :: string
  req_url :: string
  req_body :: string
  req_header :: "(string \<times> string) list"

text \<open>\<open>resp_body\<close> is what \<open>io.ReadAll\<close> returns; \<open>None\<close> when reading fails.\<close>

record http_response =
  resp_status :: int
  resp_body :: "string option"

record env =
  time_Now :: "nat \<Rightarrow> int"
  ParseUnverified :: "string \<Rightarrow> claims_result"
  json_Marshal :: "goval \<Rightarrow> string option"
  NewRequest_fails :: "string \<Rightarrow> string \<Rightarrow> bool"
  http_Do :: "http_request list \<Rightarrow> http_request \<Rightarrow> http_response option"
  range_rank :: "string \<Rightarrow> nat"

text \<open>
  The part of the world a call changes: how often the clock has been read, and the
  requests handed to the HTTP client, oldest first.
\<close>

record world =
  clock_reads :: nat
  sent :: "http_request list"

definition read_clock :: "world \<Rightarrow> world" where
  "read_clock w = w\<lparr>clock_reads := Suc (clock_reads w)\<rparr>"

definition DecodeJWT :: "env \<Rightarrow> string \<Rightarrow> error + JWT" where
  "DecodeJWT e tokenString =
     (case ParseUnverified e tokenString of
        ParseFailed \<Rightarrow> Inl (ExtError ''failed to parse token'')
      | ClaimsNotMap \<Rightarrow> Inl (ExtError ''failed to parse claims as MapClaims'')
      | MarshalFailed \<Rightarrow> Inl (ExtError ''failed to marshal claims'')
      | ClaimsJSON claimsJSON \<Rightarrow>
          (let r = Unmarshal (store_struct store_JWT_field) claimsJSON
                     \<lparr>TokenType = [], Exp = 0, Jti = [], UserId = 0, Ip = [], ApiCredentialId = 0\<rparr>
           in if fst r then Inr (snd r)
              else Inl (ExtError ''failed to unmarshal claims into struct'')))"

section \<open>The client\<close>

text \<open>
  The client's HTTP client and its timeout are the \<open>http_Do\<close> of the environment; the
  other fields are those of the source. The fields of \<open>ClientOptions\<close> carry the prefix
  \<open>opt_\<close>.
\<close>

record Client =
  BaseUrl :: string
  AccessToken :: string
  RefreshToken :: string
  ApiKey :: string
  SecretKey :: string
  AutoRefresh :: bool

record ClientOptions =
  opt_BaseUrl :: string
  opt_AccessToken :: string
  opt_RefreshToken :: string
  opt_ApiKey :: string
  opt_SecretKey :: string
  opt_AutoAuth :: bool
  opt_AutoRefresh :: bool

definition default_BaseUrl :: string where
  "default_BaseUrl = ''https://api.bitpin.ir''"

definition Version :: string where
  "Version = ''v1''"

definition assertAuth :: "Client \<Rightarrow> error option" where
  "assertAuth client =
     (if AccessToken client = [] then Some (GoBitpinError ''access token is empty'' None)
      else if RefreshToken client = [] then Some (GoBitpinError ''refresh token is empty'' None)
      else None)"

definition createApiURI :: "Client \<Rightarrow> string \<Rightarrow> string \<Rightarrow> string" where
  "createApiURI c endpoint version =
     BaseUrl c @ ''/api/'' @ (if version = [] then Version else version) @ endpoint"

subsection \<open>The request pipeline\<close>

text \<open>
  \<open>Request\<close> calls \<open>handleAutoRefresh\<close>, which calls \<open>RefreshAccessToken\<close> and
  \<open>Authenticate\<close>, which call \<open>Request\<close> again, always with \<open>auth = false\<close>, where
  \<open>handleAutoRefresh\<close> is not reached. The model cuts this cycle: \<open>Request_core\<close> is the body
  of \<open>Request\<close> with the refresh procedure as a parameter, the two token operations use it
  with a procedure that is never called, and \<open>Request\<close> is \<open>Request_core\<close> with
  \<open>handleAutoRefresh\<close>.

  A call returns its error (\<open>None\<close> for nil) together with everything it may have changed:
  the caller's decode target, the client and the world. The decode target \<open>result\<close> is
  \<open>None\<close> for nil; \<open>unmarshal\<close> is \<open>json.Unmarshal\<close> at the target's type.
\<close>

text \<open>The steps of \<open>Request\<close> before the request exists (the body for GET and for POST).\<close>

definition prepare_url :: "string \<Rightarrow> string \<Rightarrow> goval option \<Rightarrow> error + string" where
  "prepare_url method url body =
     (if method = ''GET'' then
        (case body of
           None \<Rightarrow> Inr url
         | Some b \<Rightarrow>
             (case StructToURLParams b of
                Inl err \<Rightarrow>
                  Inl (RequestError ''failed to convert struct to URL params'' (Some err)
                         ''preparing request parameters'')
              | Inr urlParams \<Rightarrow> Inr (url @ ''?'' @ urlParams)))
      else Inr url)"

definition prepare_body :: "env \<Rightarrow> string \<Rightarrow> goval option \<Rightarrow> error + string" where
  "prepare_body e method body =
     (if method = ''POST'' then
        (case body of
           None \<Rightarrow> Inr []
         | Some b \<Rightarrow>
             (case json_Marshal e b of
                None \<Rightarrow>
                  Inl (RequestError ''failed to marshal request body'' (Some (ExtError ''json.Marshal''))
                         ''preparing request body'')
              | Some bytes \<Rightarrow> Inr bytes))
      else Inr [])"

definition new_request :: "env \<Rightarrow> string \<Rightarrow> string \<Rightarrow> goval option \<Rightarrow> error + http_request" where
  "new_request e method url body =
     (case prepare_url method url body of
        Inl err \<Rightarrow> Inl err
      | Inr url' \<Rightarrow>
          (case prepare_body e method body of
             Inl err \<Rightarrow> Inl err
           | Inr reqBody \<Rightarrow>
               if NewRequest_fails e method url' then
                 Inl (RequestError ''failed to create request'' (Some (ExtError ''http.NewRequest''))
                        ''creating request'')
               else
                 Inr \<lparr>req_method = method, req_url = url', req_body = reqBody,
                      req_header = [(''Content-Type'', ''application/json'')]\<rparr>))"

text \<open>\<open>Header.Set\<close>\<close>

definition set_header :: "string \<Rightarrow> string \<Rightarrow> http_request \<Rightarrow> http_request" where
  "set_header k v req = req\<lparr>req_header := AList.update k v (req_header req)\<rparr>"

text \<open>The block \<open>if auth { ... }\<close>: the error, the request, the client and the world after it.\<close>

definition authorize ::
  "(Client \<Rightarrow> world \<Rightarrow> error option \<times> Client \<times> world) \<Rightarrow> Client \<Rightarrow> world \<Rightarrow> bool \<Rightarrow> http_request
     \<Rightarrow> error option \<times> http_request \<times> Client \<times> world" where
  "authorize refresh c w auth req =
     (if auth then
        (case (if AutoRefresh c then refresh c w else (None, c, w)) of
           (Some err, c1, w1) \<Rightarrow>
             (Some (GoBitpinError ''failed to refresh authentication'' (Some err)), req, c1, w1)
         | (None, c1, w1) \<Rightarrow>
             (case assertAuth c1 of
                Some err \<Rightarrow>
                  (Some (GoBitpinError ''authentication validation failed'' (Some err)), req, c1, w1)
              | None \<Rightarrow>
                  (None, set_header ''Authorization'' (''Bearer '' @ AccessToken c1) req, c1, w1)))
      else (None, req, c, w))"

text \<open>Sending the request and reading the answer: the error, the decode target, the world.\<close>

definition dispatch ::
  "env \<Rightarrow> (string \<Rightarrow> 'r \<Rightarrow> bool \<times> 'r) \<Rightarrow> world \<Rightarrow> http_request \<Rightarrow> 'r option
     \<Rightarrow> error option \<times> 'r option \<times> world" where
  "dispatch e unmarshal w req result =
     (let w' = w\<lparr>sent := sent w @ [req]\<rparr> in
      case http_Do e (sent w) req of
        None \<Rightarrow>
          (Some (RequestError ''failed to send request'' (Some (ExtError ''HttpClient.Do''))
                   ''sending request''), result, w')
      | Some resp \<Rightarrow>
          (case resp_body resp of
             None \<Rightarrow>
               (Some (RequestError ''failed to read response body'' (Some (ExtError ''io.ReadAll''))
                        ''reading response''), result, w')
           | Some respBody \<Rightarrow>
               if resp_status resp < 200 \<or> resp_status resp \<ge> 300 then
                 (Some (ApiError (parseErrorResponse (range_rank e) (resp_status resp) respBody)),
                  result, w')
               else
                 (case result of
                    None \<Rightarrow> (None, None, w')
                  | Some target \<Rightarrow>
                      (let r = unmarshal respBody target in
                       if fst r then (None, Some (snd r), w')
                       else
                         (Some (RequestError ''failed to unmarshal response''
                                  (Some (ExtError ''json.Unmarshal'')) ''parsing response''),
                          Some (snd r), w')))))"

definition Request_core ::
  "(Client \<Rightarrow> world \<Rightarrow> error option \<times> Client \<times> world) \<Rightarrow> env \<Rightarrow> (string \<Rightarrow> 'r \<Rightarrow> bool \<times> 'r)
     \<Rightarrow> Client \<Rightarrow> world \<Rightarrow> string \<Rightarrow> string \<Rightarrow> bool \<Rightarrow> goval option \<Rightarrow> 'r option
     \<Rightarrow> error option \<times> 'r option \<times> Client \<times> world" where
  "Request_core refresh e unmarshal c w method url auth body result =
     (case new_request e method url body of
        Inl err \<Rightarrow> (Some err, result, c, w)
      | Inr req \<Rightarrow>
          (case authorize refresh c w auth req of
             (Some err, req', c1, w1) \<Rightarrow> (Some err, result, c1, w1)
           | (None, req', c1, w1) \<Rightarrow>
               (case dispatch e unmarshal w1 req' result of
                  (err, result', w2) \<Rightarrow> (err, result', c1, w2))))"

text \<open>The refresh procedure of the calls with \<open>auth = false\<close>, which never run it.\<close>

definition no_refresh :: "Client \<Rightarrow> world \<Rightarrow> error option \<times> Client \<times> world" where
  "no_refresh c w = (None, c, w)"

subsection \<open>Authentication and refresh\<close>

record AuthenticationResponse =
  Refresh :: string
  Access :: string

record RefreshTokenResponse =
  new_Access :: string

definition store_AuthenticationResponse_field ::
  "string \<Rightarrow> json \<Rightarrow> AuthenticationResponse \<Rightarrow> bool \<times> AuthenticationResponse" where
  "store_AuthenticationResponse_field key v r =
     (if is_field ''refresh'' key then
        (let s = store_string v (Refresh r) in (fst s, r\<lparr>Refresh := snd s\<rparr>))
      else if is_field ''access'' key then
        (let s = store_string v (Access r) in (fst s, r\<lparr>Access := snd s\<rparr>))
      else (True, r))"

definition store_RefreshTokenResponse_field ::
  "string \<Rightarrow> json \<Rightarrow> RefreshTokenResponse \<Rightarrow> bool \<times> RefreshTokenResponse" where
  "store_RefreshTokenResponse_field key v r =
     (if is_field ''access'' key then
        (let s = store_string v (new_Access r) in (fst s, r\<lparr>new_Access := snd s\<rparr>))
      else (True, r))"

definition Authenticate ::
  "env \<Rightarrow> Client \<Rightarrow> world \<Rightarrow> string \<Rightarrow> string \<Rightarrow> (error + AuthenticationResponse) \<times> Client \<times> world" where
  "Authenticate e c w apiKey secretKey =
     (if apiKey = [] \<or> secretKey = [] then
        (Inl (GoBitpinError ''API key and/or secret key are empty'' None), c, w)
      else
        (case Request_core no_refresh e (Unmarshal (store_struct store_AuthenticationResponse_field))
                c w ''POST'' (createApiURI c ''/usr/authenticate/'' Version) False
                (Some (StringMap [(''api_key'', apiKey), (''secret_key'', secretKey)]))
                (Some \<lparr>Refresh = [], Access = []\<rparr>) of
           (Some err, _, c1, w1) \<Rightarrow> (Inl err, c1, w1)
         | (None, r, c1, w1) \<Rightarrow>
             (let authResponse = (case r of None \<Rightarrow> \<lparr>Refresh = [], Access = []\<rparr> | Some a \<Rightarrow> a)
              in (Inr authResponse,
                  c1\<lparr>AccessToken := Access authResponse, RefreshToken := Refresh authResponse\<rparr>,
                  w1))))"

definition RefreshAccessToken :: "env \<Rightarrow> Client \<Rightarrow> world \<Rightarrow> error option \<times> Client \<times> world" where
  "RefreshAccessToken e c w =
     (case Request_core no_refresh e (Unmarshal (store_struct store_RefreshTokenResponse_field))
             c w ''POST'' (createApiURI c ''/usr/refresh_token/'' Version) False
             (Some (StringMap [(''refresh'', RefreshToken c)]))
             (Some \<lparr>new_Access = []\<rparr>) of
        (Some err, _, c1, w1) \<Rightarrow> (Some err, c1, w1)
      | (None, r, c1, w1) \<Rightarrow>
          (let refreshResponse = (case r of None \<Rightarrow> \<lparr>new_Access = []\<rparr> | Some a \<Rightarrow> a)
           in (None, c1\<lparr>AccessToken := new_Access refreshResponse\<rparr>, w1)))"

text \<open>The two blocks of \<open>handleAutoRefresh\<close>: the access token, then the refresh token.\<close>

definition refresh_access :: "env \<Rightarrow> Client \<Rightarrow> world \<Rightarrow> error option \<times> Client \<times> world" where
  "refresh_access e c w =
     (if AccessToken c \<noteq> [] then
        (case DecodeJWT e (AccessToken c) of
           Inl err \<Rightarrow> (Some err, c, w)
         | Inr decoded \<Rightarrow>
             if IsExpired (time_Now e (clock_reads w)) decoded
             then RefreshAccessToken e c (read_clock w)
             else (None, c, read_clock w))
      else (None, c, w))"

definition refresh_refresh :: "env \<Rightarrow> Client \<Rightarrow> world \<Rightarrow> error option \<times> Client \<times> world" where
  "refresh_refresh e c w =
     (if RefreshToken c \<noteq> [] then
        (case DecodeJWT e (RefreshToken c) of
           Inl err \<Rightarrow> (Some err, c, w)
         | Inr decoded \<Rightarrow>
             if IsExpired (time_Now e (clock_reads w)) decoded then
               (if ApiKey c = [] \<or> SecretKey c = [] then
                  (Some (GoBitpinError ''API key and/or secret key are empty'' None), c, read_clock w)
                else
                  (case Authenticate e c (read_clock w) (ApiKey c) (SecretKey c) of
                     (Inl err, c1, w1) \<Rightarrow> (Some err, c1, w1)
                   | (Inr _, c1, w1) \<Rightarrow> (None, c1, w1)))
             else (None, c, read_clock w))
      else (None, c, w))"

definition handleAutoRefresh :: "env \<Rightarrow> Client \<Rightarrow> world \<Rightarrow> error option \<times> Client \<times> world" where
  "handleAutoRefresh e c w =
     (case refresh_access e c w of
        (Some err, c1, w1) \<Rightarrow> (Some err, c1, w1)
      | (None, c1, w1) \<Rightarrow> refresh_refresh e c1 w1)"

definition Request ::
  "env \<Rightarrow> (string \<Rightarrow> 'r \<Rightarrow> bool \<times> 'r) \<Rightarrow> Client \<Rightarrow> world \<Rightarrow> string \<Rightarrow> string \<Rightarrow> bool
     \<Rightarrow> goval option \<Rightarrow> 'r option \<Rightarrow> error option \<times> 'r option \<times> Client \<times> world" where
  "Request e = Request_core (handleAutoRefresh e) e"

definition ApiRequest ::
  "env \<Rightarrow> (string \<Rightarrow> 'r \<Rightarrow> bool \<times> 'r) \<Rightarrow> Client \<Rightarrow> world \<Rightarrow> string \<Rightarrow> string \<Rightarrow> string \<Rightarrow> bool
     \<Rightarrow> goval option \<Rightarrow> 'r option \<Rightarrow> error option \<times> 'r option \<times> Client \<times> world" where
  "ApiRequest e unmarshal c w method endpoint version auth body result =
     Request e unmarshal c w method (createApiURI c endpoint version) auth body result"

text \<open>The client \<open>NewClient\<close> builds before it goes to the network.\<close>

definition client_of :: "ClientOptions \<Rightarrow> Client" where
  "client_of opts =
     \<lparr>BaseUrl = (if opt_BaseUrl opts \<noteq> [] then opt_BaseUrl opts else default_BaseUrl),
      AccessToken = opt_AccessToken opts, RefreshToken = opt_RefreshToken opts,
      ApiKey = opt_ApiKey opts, SecretKey = opt_SecretKey opts,
      AutoRefresh = opt_AutoRefresh opts\<rparr>"

definition NewClient :: "env \<Rightarrow> ClientOptions \<Rightarrow> world \<Rightarrow> (error + Client) \<times> world" where
  "NewClient e opts w =
     (case handleAutoRefresh e (client_of opts) w of
        (Some err, c1, w1) \<Rightarrow> (Inl err, w1)
      | (None, c1, w1) \<Rightarrow>
          if opt_ApiKey opts \<noteq> [] \<and> opt_SecretKey opts \<noteq> [] then
            (case Authenticate e c1 w1 (opt_ApiKey opts) (opt_SecretKey opts) of
               (Inl err, c2, w2) \<Rightarrow> (Inl err, w2)
             | (Inr _, c2, w2) \<Rightarrow> (Inr c2, w2))
          else (Inr c1, w1))"

section \<open>A sample environment\<close>

text \<open>
  A clock that stands at 200 seconds, a token library that knows five tokens by name (the
  access token \<open>A\<close> and the refresh token \<open>RX\<close> expired at 100 seconds, the access token
  \<open>A2\<close> and the refresh token \<open>R\<close> expire at 300 seconds, \<open>A3\<close> and \<open>R3\<close> at 400), and a
  server that gives the same answer to every request.
\<close>

definition sample_claims :: "string \<Rightarrow> claims_result" where
  \<open>sample_claims s =
     (if s = ''A'' \<or> s = ''RX'' then ClaimsJSON ''{"exp":100,"token_type":"access"}''
      else if s = ''A2'' \<or> s = ''R'' then ClaimsJSON ''{"exp":300}''
      else if s = ''A3'' \<or> s = ''R3'' then ClaimsJSON ''{"exp":400}''
      else ParseFailed)\<close>

text \<open>A body of string fields as a JSON object; enough for keys and values without quotes.\<close>

definition sample_marshal :: "goval \<Rightarrow> string option" where
  \<open>sample_marshal b =
     (case b of
        StringMap kvs \<Rightarrow>
          Some (''{'' @ join '','' (map (\<lambda>kv. ''"'' @ fst kv @ ''":"'' @ snd kv @ ''"'') kvs) @ ''}'')
      | _ \<Rightarrow> None)\<close>

definition sample_env :: "http_response option \<Rightarrow> env" where
  "sample_env answer =
     \<lparr>time_Now = (\<lambda>_. 200 * Second), ParseUnverified = sample_claims,
      json_Marshal = sample_marshal, NewRequest_fails = (\<lambda>_ _. False),
      http_Do = (\<lambda>_ _. answer), range_rank = (\<lambda>_. 0)\<rparr>"

definition sample_client :: "string \<Rightarrow> string \<Rightarrow> Client" where
  "sample_client access refresh =
     \<lparr>BaseUrl = default_BaseUrl, AccessToken = access, RefreshToken = refresh,
      ApiKey = [], SecretKey = [], AutoRefresh = True\<rparr>"

definition world0 :: world where
  "world0 = \<lparr>clock_reads = 0, sent = []\<rparr>"

text \<open>Answers of the server, and the refresh request of a client with the refresh token \<open>t\<close>.\<close>

definition refreshed :: http_response where
  \<open>refreshed = \<lparr>resp_status = 200, resp_body = Some ''{"access":"A2"}''\<rparr>\<close>

definition authenticated :: http_response where
  \<open>authenticated = \<lparr>resp_status = 200, resp_body = Some ''{"refresh":"R3","access":"A3"}''\<rparr>\<close>

definition unauthorized :: http_response where
  \<open>unauthorized = \<lparr>resp_status = 401, resp_body = Some ''{"detail":"token expired"}''\<rparr>\<close>

definition not_found :: http_response where
  \<open>not_found = \<lparr>resp_status = 404, resp_body = Some ''{"detail":"not found"}''\<rparr>\<close>

definition refresh_request :: "string \<Rightarrow> http_request" where
  \<open>refresh_request t =
     \<lparr>req_method = ''POST'', req_url = ''https://api.bitpin.ir/api/v1/usr/refresh_token/'',
      req_body = ''{"refresh":"'' @ t @ ''"}'',
      req_header = [(''Content-Type'', ''application/json'')]\<rparr>\<close>

definition wallets_request :: "string \<Rightarrow> http_request" where
  "wallets_request t =
     \<lparr>req_method = ''GET'', req_url = ''https://api.bitpin.ir/api/v1/wlt/wallets/'',
      req_body = [],
      req_header = [(''Content-Type'', ''application/json''), (''Authorization'', ''Bearer '' @ t)]\<rparr>"

definition missing_credentials :: error where
  "missing_credentials = GoBitpinError ''API key and/or secret key are empty'' None"

definition expired_claims :: JWT where
  "expired_claims =
     \<lparr>TokenType = ''access'', Exp = 100, Jti = [], UserId = 0, Ip = [], ApiCredentialId = 0\<rparr>"

definition valid_claims :: JWT where
  "valid_claims = \<lparr>TokenType = [], Exp = 300, Jti = [], UserId = 0, Ip = [], ApiCredentialId = 0\<rparr>"

definition authenticate_request :: "string \<Rightarrow> string \<Rightarrow> http_request" where
  \<open>authenticate_request k s =
     \<lparr>req_method = ''POST'', req_url = ''https://api.bitpin.ir/api/v1/usr/authenticate/'',
      req_body = ''{"api_key":"'' @ k @ ''","secret_key":"'' @ s @ ''"}'',
      req_header = [(''Content-Type'', ''application/json'')]\<rparr>\<close>

definition sample_options :: "string \<Rightarrow> string \<Rightarrow> string \<Rightarrow> string \<Rightarrow> bool \<Rightarrow> ClientOptions" where
  "sample_options access refresh key secret autoAuth =
     \<lparr>opt_BaseUrl = [], opt_AccessToken = access, opt_RefreshToken = refresh,
      opt_ApiKey = key, opt_SecretKey = secret, opt_AutoAuth = autoAuth,
      opt_AutoRefresh = True\<rparr>"

section \<open>The authentication check\<close>

text \<open>
  Claim C8. \<open>assertAuth\<close> fails with the error "access token is empty" when the access
  token is the empty string, with the different error "refresh token is empty" when the
  refresh token is the empty string (the access token is tested first, so this is the
  error when only the refresh token is missing), and it succeeds exactly when both are
  non-empty; nothing else about the tokens is looked at.
\<close>

theorem assertAuth_tokens_present:
  "(AccessToken c = [] \<longrightarrow> assertAuth c = Some (GoBitpinError ''access token is empty'' None))
   \<and> (AccessToken c \<noteq> [] \<and> RefreshToken c = [] \<longrightarrow>
        assertAuth c = Some (GoBitpinError ''refresh token is empty'' None))
   \<and> GoBitpinError ''access token is empty'' None \<noteq> GoBitpinError ''refresh token is empty'' None
   \<and> (assertAuth c = None) = (AccessToken c \<noteq> [] \<and> RefreshToken c \<noteq> [])"
  by (simp add: assertAuth_def)

theorem assertAuth_tokens_present_witness:
  "assertAuth (sample_client [] ''R'') = Some (GoBitpinError ''access token is empty'' None)
   \<and> assertAuth (sample_client ''A'' []) = Some (GoBitpinError ''refresh token is empty'' None)
   \<and> assertAuth (sample_client ''not a token'' ''x'') = None"
  using assertAuth_tokens_present [of "sample_client [] ''R''"]
    assertAuth_tokens_present [of "sample_client ''A'' []"]
    assertAuth_tokens_present [of "sample_client ''not a token'' ''x''"]
  by (simp add: sample_client_def)

section \<open>Token expiry\<close>

lemma Unix_add_seconds: "Unix (now + d * Second) = Unix now + d"
  by (simp add: Unix_def Second_def)

lemma le_div_iff_int:
  fixes a b c :: int
  assumes "0 < c"
  shows "(a \<le> b div c) = (a * c \<le> b)"
proof
  assume "a \<le> b div c"
  then have "a * c \<le> (b div c) * c"
    using assms by (simp add: mult_right_mono)
  also have "\<dots> \<le> b"
    using assms by (metis mult.commute pos_mod_sign add_increasing2 mult_div_mod_eq order_refl)
  finally show "a * c \<le> b" .
next
  assume "a * c \<le> b"
  then have "(a * c) div c \<le> b div c"
    using assms by (rule zdiv_mono1)
  then show "a \<le> b div c"
    using assms by simp
qed

text \<open>
  The clock has nanoseconds and the expiry has seconds: a token counts as expired from the
  first whole second after its expiry on.
\<close>

lemma IsExpired_nanoseconds: "IsExpired now j = ((Exp j + 1) * Second \<le> now)"
proof -
  have "(Exp j < now div Second) = (Exp j + 1 \<le> now div Second)"
    by linarith
  also have "\<dots> = ((Exp j + 1) * Second \<le> now)"
    by (rule le_div_iff_int) (simp add: Second_def)
  finally show ?thesis
    by (simp add: IsExpired_def Unix_def)
qed

text \<open>
  Claim C7. Times are compared as Unix timestamps. \<open>IsExpired\<close> holds exactly when the
  expiry is strictly before the Unix time of now, and \<open>IsExpiredIn\<close> exactly when it is
  strictly before the Unix time of now plus the window; for a window of \<open>d\<close> seconds that is
  the Unix time of now, plus \<open>d\<close>. With the expiry 3600 seconds after now, a window of 7200
  seconds gives true and a window of 1800 seconds gives false.
\<close>

theorem IsExpired_strictly_before:
  "IsExpired now j = (Exp j < Unix now)
   \<and> IsExpiredIn now j t = (Exp j < Unix (now + t))
   \<and> IsExpiredIn now j (d * Second) = (Exp j < Unix now + d)
   \<and> IsExpiredIn now (j\<lparr>Exp := Unix now + 3600\<rparr>) (7200 * Second)
   \<and> \<not> IsExpiredIn now (j\<lparr>Exp := Unix now + 3600\<rparr>) (1800 * Second)"
  by (simp add: IsExpired_def IsExpiredIn_def Unix_add_seconds)

section \<open>The query encoder and zero values\<close>

lemma add_field_zero: "IsZero v \<Longrightarrow> add_field (k, v) vals = vals"
  by (simp add: add_field_def Let_def)

lemma add_field_false: "add_field (k, VBool False) vals = vals"
  by (simp add: add_field_zero)

lemma add_field_true:
  "k \<noteq> [] \<Longrightarrow> k \<noteq> ''-'' \<Longrightarrow> add_field (k, VBool True) vals = Add k ''true'' vals"
  by (simp add: add_field_def Let_def FormatBool_def)

text \<open>
  Claim C1. The claim is that a boolean field is emitted even when it is false, so that
  the struct \<open>{name: "", age: 0, active: false}\<close> encodes as \<open>active=false\<close>. The encoder
  skips every field that holds the zero value of its type before it looks at the kind of
  the field, and \<open>false\<close> is the zero value of a boolean: the branch that adds booleans is
  reached for \<open>true\<close> only. For this struct the encoder returns the empty query string.
\<close>

theorem StructToURLParams_false_boolean:
  "StructToURLParams (Struct [(''name'', VString []), (''age'', VInt 0), (''active'', VBool False)])
     = Inr []"
  by (simp add: StructToURLParams_def add_field_def Encode_def)

section \<open>The shapes of an error body\<close>

lemma shape1_list:
  \<open>Unmarshal (store_map (\<lambda>v. store_strings v [])) ''{"field":["err1","err2"]}'' None
     = (True, Some [(''field'', [''err1'', ''err2''])])\<close>
  by code_simp

lemma shape1_single:
  \<open>fst (Unmarshal (store_map (\<lambda>v. store_strings v [])) ''{"field":"err"}'' None) = False\<close>
  by code_simp

lemma shape2_single:
  \<open>Unmarshal (store_map (\<lambda>v. store_string v [])) ''{"field":"err"}'' None
     = (True, Some [(''field'', ''err'')])\<close>
  by code_simp

lemma shape1_detail:
  \<open>fst (Unmarshal (store_map (\<lambda>v. store_strings v [])) ''{"detail":"x","code":"Y"}'' None) = False\<close>
  by code_simp

lemma shape2_detail:
  \<open>Unmarshal (store_map (\<lambda>v. store_string v [])) ''{"detail":"x","code":"Y"}'' None
     = (True, Some [(''code'', ''Y''), (''detail'', ''x'')])\<close>
  by code_simp

lemma oops_not_json: "json_parse ''oops'' = None"
  by code_simp

lemma shape1_null:
  "Unmarshal (store_map (\<lambda>v. store_strings v [])) ''null'' None = (True, None)"
  by code_simp

lemma shape1_empty_object:
  "Unmarshal (store_map (\<lambda>v. store_strings v [])) ''{}'' None = (True, Some [])"
  by code_simp

lemma shape1_null_member:
  \<open>Unmarshal (store_map (\<lambda>v. store_strings v [])) ''{"a":null}'' None = (True, Some [(''a'', [])])\<close>
  by code_simp

lemma shape1_structured:
  \<open>fst (Unmarshal (store_map (\<lambda>v. store_strings v []))
          ''{"detail":"bad","code":"E1","messages":{"x":"y"}}'' None) = False\<close>
  by code_simp

lemma shape2_structured:
  \<open>fst (Unmarshal (store_map (\<lambda>v. store_string v []))
          ''{"detail":"bad","code":"E1","messages":{"x":"y"}}'' None) = False\<close>
  by code_simp

lemma shape3_structured:
  \<open>Unmarshal (store_struct store_errResp_field) ''{"detail":"bad","code":"E1","messages":{"x":"y"}}''
      \<lparr>Detail = [], Code = [], Messages = None\<rparr>
     = (True, \<lparr>Detail = ''bad'', Code = ''E1'', Messages = Some [(''x'', ''y'')]\<rparr>)\<close>
  by code_simp

lemma shape1_extra:
  \<open>fst (Unmarshal (store_map (\<lambda>v. store_strings v [])) ''{"detail":"bad","extra":5}'' None) = False\<close>
  by code_simp

lemma shape2_extra:
  \<open>fst (Unmarshal (store_map (\<lambda>v. store_string v [])) ''{"detail":"bad","extra":5}'' None) = False\<close>
  by code_simp

lemma shape3_extra:
  \<open>Unmarshal (store_struct store_errResp_field) ''{"detail":"bad","extra":5}''
      \<lparr>Detail = [], Code = [], Messages = None\<rparr>
     = (True, \<lparr>Detail = ''bad'', Code = [], Messages = None\<rparr>)\<close>
  by code_simp

lemma shapes_mismatch:
  \<open>fst (Unmarshal (store_map (\<lambda>v. store_strings v [])) ''{"detail":5}'' None) = False
   \<and> fst (Unmarshal (store_map (\<lambda>v. store_string v [])) ''{"detail":5}'' None) = False
   \<and> fst (Unmarshal (store_struct store_errResp_field) ''{"detail":5}''
            \<lparr>Detail = [], Code = [], Messages = None\<rparr>) = False\<close>
  by code_simp

lemma wrap_into_one: "wrap_into rank (Some [(k, v)]) d = map_assign k [v] d"
  by (simp add: wrap_into_def range_map_def entries_def)

lemma wrap_into_nil: "wrap_into rank None d = d"
  by (simp add: wrap_into_def range_map_def entries_def)

lemma wrap_into_single: "wrap_into rank (Some [(k, v)]) [] = [(k, [v])]"
  by (simp add: wrap_into_def range_map_def entries_def)

text \<open>Whatever the order of the iteration, the same map comes out.\<close>

lemma wrap_into_code_detail:
  "wrap_into rank (Some [(''code'', ''Y''), (''detail'', ''x'')]) []
     = [(''code'', [''Y'']), (''detail'', [''x''])]"
  by (simp add: wrap_into_def range_map_def entries_def byte_def)

lemma formatErrorDetails_single: "formatErrorDetails rank (Some [(k, [v])]) = k @ '': '' @ v"
  by (simp add: formatErrorDetails_def range_map_def entries_def)

text \<open>
  An error built from a parsed body is never the error of the raw fallback: if its details
  were the single entry \<open>raw\<close>, its message would start with that key.
\<close>

lemma mk_api_error_not_raw: "mk_api_error rank sc d \<noteq> raw_api_error sc body"
proof
  assume eq: "mk_api_error rank sc d = raw_api_error sc body"
  from arg_cong [OF eq, of Details] have d: "d = Some [(''raw'', [body])]"
    by (simp add: mk_api_error_def raw_api_error_def)
  from arg_cong [OF eq, of Message]
  have "api_message sc (formatErrorDetails rank d) = api_message sc body"
    by (simp add: mk_api_error_def raw_api_error_def)
  then have "''raw: '' @ body = body"
    unfolding d formatErrorDetails_single api_message_def by simp
  then have "length (''raw: '' @ body) = length body"
    by simp
  then show False by simp
qed

text \<open>
  Claim C3. For every status code and every body the normalizer returns an error that
  carries the status code. A body that is an object of string lists gives these lists as
  details; an object of strings gives each string as a one-element list; the object with
  the keys \<open>detail\<close> and \<open>code\<close> gives details with both keys; and the four bytes \<open>oops\<close>,
  which are not JSON, give the single entry \<open>raw\<close> with the body itself. The shapes are
  tried in order: the body \<open>{"a":null}\<close> fits the first and the second shape, and its
  details are those of the first (an empty list, not a list with the empty string). A body
  that only the third shape accepts, with a \<open>detail\<close>, a \<open>code\<close> and a \<open>messages\<close> object,
  gives one entry for each of the two strings and one for each message; a key the struct
  does not have is skipped; and a \<open>detail\<close> that is not a string fails the third shape too,
  so that the body is kept as \<open>raw\<close>.
\<close>

theorem parseErrorResponse_shapes:
  \<open>StatusCode (parseErrorResponse rank sc body) = sc
   \<and> Details (parseErrorResponse rank sc ''{"field":["err1","err2"]}'')
       = Some [(''field'', [''err1'', ''err2''])]
   \<and> Details (parseErrorResponse rank sc ''{"field":"err"}'') = Some [(''field'', [''err''])]
   \<and> lookup (Details (parseErrorResponse rank sc ''{"detail":"x","code":"Y"}'')) ''detail'' = Some [''x'']
   \<and> lookup (Details (parseErrorResponse rank sc ''{"detail":"x","code":"Y"}'')) ''code'' = Some [''Y'']
   \<and> Details (parseErrorResponse rank sc ''oops'') = Some [(''raw'', [''oops''])]
   \<and> Details (parseErrorResponse rank sc ''{"a":null}'') = Some [(''a'', [])]
   \<and> Details (parseErrorResponse rank sc ''{"detail":"bad","code":"E1","messages":{"x":"y"}}'')
       = Some [(''code'', [''E1'']), (''detail'', [''bad'']), (''x'', [''y''])]
   \<and> Details (parseErrorResponse rank sc ''{"detail":"bad","extra":5}'')
       = Some [(''detail'', [''bad''])]
   \<and> Details (parseErrorResponse rank sc ''{"detail":5}'') = Some [(''raw'', [''{"detail":5}''])]\<close>
proof -
  have "StatusCode (parseErrorResponse rank sc body) = sc"
    by (simp add: parseErrorResponse_def Let_def mk_api_error_def raw_api_error_def)
  moreover have \<open>Details (parseErrorResponse rank sc ''{"field":["err1","err2"]}'')
       = Some [(''field'', [''err1'', ''err2''])]\<close>
    by (simp add: parseErrorResponse_def shape1_list mk_api_error_def)
  moreover have \<open>Details (parseErrorResponse rank sc ''{"field":"err"}'') = Some [(''field'', [''err''])]\<close>
    by (simp add: parseErrorResponse_def shape1_single shape2_single mk_api_error_def
        wrap_into_single)
  moreover have \<open>Details (parseErrorResponse rank sc ''{"detail":"x","code":"Y"}'')
       = Some [(''code'', [''Y'']), (''detail'', [''x''])]\<close>
    by (simp add: parseErrorResponse_def shape1_detail shape2_detail mk_api_error_def
        wrap_into_code_detail)
  moreover have "Details (parseErrorResponse rank sc ''oops'') = Some [(''raw'', [''oops''])]"
    by (simp add: parseErrorResponse_def Unmarshal_def oops_not_json raw_api_error_def)
  moreover have \<open>Details (parseErrorResponse rank sc ''{"a":null}'') = Some [(''a'', [])]\<close>
    by (simp add: parseErrorResponse_def shape1_null_member mk_api_error_def)
  moreover have
    \<open>Details (parseErrorResponse rank sc ''{"detail":"bad","code":"E1","messages":{"x":"y"}}'')
       = Some [(''code'', [''E1'']), (''detail'', [''bad'']), (''x'', [''y''])]\<close>
    by (simp add: parseErrorResponse_def shape1_structured shape2_structured shape3_structured
        mk_api_error_def wrap_into_one byte_def)
  moreover have \<open>Details (parseErrorResponse rank sc ''{"detail":"bad","extra":5}'')
       = Some [(''detail'', [''bad''])]\<close>
    by (simp add: parseErrorResponse_def shape1_extra shape2_extra shape3_extra
        mk_api_error_def wrap_into_nil)
  moreover have
    \<open>Details (parseErrorResponse rank sc ''{"detail":5}'') = Some [(''raw'', [''{"detail":5}''])]\<close>
    by (simp add: parseErrorResponse_def shapes_mismatch raw_api_error_def)
  ultimately show ?thesis
    by (simp add: lookup_def entries_def)
qed

text \<open>
  Claim C10. For the bodies \<open>null\<close> and \<open>{}\<close> the first parse succeeds: the details are
  the nil map and the empty map, and neither has an entry \<open>raw\<close>. For every body, the
  normalizer returns the error of the raw fallback exactly when all three parses fail.
\<close>

theorem parseErrorResponse_raw_only_when_all_fail:
  "fst (Unmarshal (store_map (\<lambda>v. store_strings v [])) ''null'' None)
   \<and> fst (Unmarshal (store_map (\<lambda>v. store_strings v [])) ''{}'' None)
   \<and> Details (parseErrorResponse rank sc ''null'') = None
   \<and> Details (parseErrorResponse rank sc ''{}'') = Some []
   \<and> lookup (Details (parseErrorResponse rank sc ''null'')) ''raw'' = None
   \<and> lookup (Details (parseErrorResponse rank sc ''{}'')) ''raw'' = None
   \<and> (parseErrorResponse rank sc body = raw_api_error sc body)
       = (\<not> fst (Unmarshal (store_map (\<lambda>v. store_strings v [])) body None)
          \<and> \<not> fst (Unmarshal (store_map (\<lambda>v. store_string v [])) body None)
          \<and> \<not> fst (Unmarshal (store_struct store_errResp_field) body
                      \<lparr>Detail = [], Code = [], Messages = None\<rparr>))"
proof -
  have "Details (parseErrorResponse rank sc ''null'') = None"
    by (simp add: parseErrorResponse_def shape1_null mk_api_error_def)
  moreover have "Details (parseErrorResponse rank sc ''{}'') = Some []"
    by (simp add: parseErrorResponse_def shape1_empty_object mk_api_error_def)
  moreover have "(parseErrorResponse rank sc body = raw_api_error sc body)
       = (\<not> fst (Unmarshal (store_map (\<lambda>v. store_strings v [])) body None)
          \<and> \<not> fst (Unmarshal (store_map (\<lambda>v. store_string v [])) body None)
          \<and> \<not> fst (Unmarshal (store_struct store_errResp_field) body
                      \<lparr>Detail = [], Code = [], Messages = None\<rparr>))"
    by (simp add: parseErrorResponse_def Let_def mk_api_error_not_raw)
  ultimately show ?thesis
    by (simp add: lookup_def entries_def shape1_null shape1_empty_object)
qed

section \<open>Calls without authentication\<close>

lemma authorize_unauth: "authorize h c w False req = (None, req, c, w)"
  by (simp add: authorize_def)

text \<open>
  With \<open>auth = false\<close> the refresh procedure is not reached, so the calls of
  \<open>RefreshAccessToken\<close> and \<open>Authenticate\<close> are calls of \<open>Request\<close>.
\<close>

lemma Request_unauth:
  "Request e u c w m url False b r = Request_core no_refresh e u c w m url False b r"
  by (simp add: Request_def Request_core_def authorize_unauth split: sum.splits)

lemma ApiRequest_unauth:
  "ApiRequest e u c w m endpoint version False b r
     = Request_core no_refresh e u c w m (createApiURI c endpoint version) False b r"
  by (simp add: ApiRequest_def Request_unauth)

lemma Request_core_unauth_client:
  assumes "Request_core h e u c w m url False b r = (err, r', c', w')"
  shows "c' = c"
  using assms
  by (auto simp add: Request_core_def authorize_unauth split: sum.splits prod.splits)

lemma RefreshAccessToken_client:
  assumes "RefreshAccessToken e c w = (err, c', w')"
  shows "c' = c\<lparr>AccessToken := AccessToken c'\<rparr>"
proof -
  obtain err1 r1 c1 w1 where rq:
    "Request_core no_refresh e (Unmarshal (store_struct store_RefreshTokenResponse_field))
             c w ''POST'' (createApiURI c ''/usr/refresh_token/'' Version) False
             (Some (StringMap [(''refresh'', RefreshToken c)]))
             (Some \<lparr>new_Access = []\<rparr>) = (err1, r1, c1, w1)"
    by (metis prod_cases4)
  then have "c1 = c" by (rule Request_core_unauth_client)
  with rq assms show ?thesis
    by (auto simp add: RefreshAccessToken_def Let_def split: option.splits)
qed

lemma sample_refresh:
  "RefreshAccessToken (sample_env (Some refreshed)) (sample_client ''A'' ''R'') world0
     = (None, sample_client ''A2'' ''R'', \<lparr>clock_reads = 0, sent = [refresh_request ''R'']\<rparr>)"
  by code_simp

text \<open>
  Claim C6. A successful \<open>RefreshAccessToken\<close> changes no field of the client but the
  access token: the refresh token, the API key and the secret key (and the base URL and
  the refresh flag) are those of the client before the call.
\<close>

theorem RefreshAccessToken_overwrites_access_only:
  assumes "RefreshAccessToken e c w = (None, c', w')"
  shows "RefreshToken c' = RefreshToken c \<and> ApiKey c' = ApiKey c \<and> SecretKey c' = SecretKey c
         \<and> BaseUrl c' = BaseUrl c \<and> AutoRefresh c' = AutoRefresh c
         \<and> c' = c\<lparr>AccessToken := AccessToken c'\<rparr>"
proof -
  have "c' = c\<lparr>AccessToken := AccessToken c'\<rparr>"
    using assms by (rule RefreshAccessToken_client)
  then show ?thesis
    by (metis Client.select_convs(1,3,4,5,6) Client.surjective Client.update_convs(2))
qed

theorem RefreshAccessToken_overwrites_access_only_witness:
  "RefreshAccessToken (sample_env (Some refreshed)) (sample_client ''A'' ''R'') world0
     = (None, sample_client ''A2'' ''R'', \<lparr>clock_reads = 0, sent = [refresh_request ''R'']\<rparr>)
   \<and> AccessToken (sample_client ''A2'' ''R'') = ''A2''
   \<and> RefreshToken (sample_client ''A2'' ''R'') = RefreshToken (sample_client ''A'' ''R'')
   \<and> ApiKey (sample_client ''A2'' ''R'') = ApiKey (sample_client ''A'' ''R'')
   \<and> SecretKey (sample_client ''A2'' ''R'') = SecretKey (sample_client ''A'' ''R'')"
  using RefreshAccessToken_overwrites_access_only [OF sample_refresh] sample_refresh
  by (simp add: sample_client_def)

section \<open>Error statuses\<close>

lemma sample_wallets_request:
  "new_request (sample_env (Some not_found)) ''GET'' ''https://api.bitpin.ir/api/v1/wlt/wallets/'' None
     = Inr \<lparr>req_method = ''GET'', req_url = ''https://api.bitpin.ir/api/v1/wlt/wallets/'',
            req_body = [], req_header = [(''Content-Type'', ''application/json'')]\<rparr>"
  by code_simp

lemma sample_wallets_authorize:
  "authorize (handleAutoRefresh (sample_env (Some not_found))) (sample_client ''A2'' ''R'') world0 True
     \<lparr>req_method = ''GET'', req_url = ''https://api.bitpin.ir/api/v1/wlt/wallets/'',
      req_body = [], req_header = [(''Content-Type'', ''application/json'')]\<rparr>
   = (None, wallets_request ''A2'', sample_client ''A2'' ''R'', \<lparr>clock_reads = 2, sent = []\<rparr>)"
  by code_simp

lemma sample_not_found:
  \<open>parseErrorResponse (range_rank (sample_env (Some not_found))) 404 ''{"detail":"not found"}''
     = \<lparr>Message = ''API error (status 404): detail: not found'', StatusCode = 404,
        Details = Some [(''detail'', [''not found''])]\<rparr>\<close>
  by code_simp

text \<open>
  Claim C4. When the request has been built and authorized and the HTTP client returns a
  response whose body can be read and whose status code is below 200 or at least 300,
  \<open>Request\<close> returns the error that \<open>parseErrorResponse\<close> makes of the status code and the
  body, and the caller's decode target is what it was before the call.
\<close>

theorem Request_error_status:
  assumes "new_request e method url body = Inr req"
      and "authorize (handleAutoRefresh e) c w auth req = (None, req', c1, w1)"
      and "http_Do e (sent w1) req' = Some resp"
      and "resp_body resp = Some respBody"
      and "resp_status resp < 200 \<or> 300 \<le> resp_status resp"
  shows "Request e unmarshal c w method url auth body result
     = (Some (ApiError (parseErrorResponse (range_rank e) (resp_status resp) respBody)),
        result, c1, w1\<lparr>sent := sent w1 @ [req']\<rparr>)"
  using assms by (simp add: Request_def Request_core_def dispatch_def Let_def)

theorem Request_error_status_witness:
  \<open>Request (sample_env (Some not_found)) (Unmarshal (store_struct store_RefreshTokenResponse_field))
      (sample_client ''A2'' ''R'') world0 ''GET'' ''https://api.bitpin.ir/api/v1/wlt/wallets/'' True None
      (Some \<lparr>new_Access = ''untouched''\<rparr>)
    = (Some (ApiError \<lparr>Message = ''API error (status 404): detail: not found'', StatusCode = 404,
                        Details = Some [(''detail'', [''not found''])]\<rparr>),
       Some \<lparr>new_Access = ''untouched''\<rparr>, sample_client ''A2'' ''R'',
       \<lparr>clock_reads = 2, sent = [wallets_request ''A2'']\<rparr>)\<close>
proof -
  have answer: "http_Do (sample_env (Some not_found)) (sent \<lparr>clock_reads = 2, sent = []\<rparr>)
      (wallets_request ''A2'') = Some not_found"
    by (simp add: sample_env_def)
  have body: \<open>resp_body not_found = Some ''{"detail":"not found"}''\<close>
    by (simp add: not_found_def)
  have status: "resp_status not_found < 200 \<or> 300 \<le> resp_status not_found"
    by (simp add: not_found_def)
  have code: "resp_status not_found = 404"
    by (simp add: not_found_def)
  show ?thesis
    using Request_error_status [OF sample_wallets_request sample_wallets_authorize answer body status]
    by (simp add: sample_not_found code)
qed

section \<open>Expired tokens and missing credentials\<close>

lemma sample_decode_expired:
  "s = ''A'' \<or> s = ''RX'' \<Longrightarrow> DecodeJWT (sample_env answer) s = Inr expired_claims"
proof -
  have \<open>Unmarshal (store_struct store_JWT_field) ''{"exp":100,"token_type":"access"}''
          \<lparr>TokenType = [], Exp = 0, Jti = [], UserId = 0, Ip = [], ApiCredentialId = 0\<rparr>
        = (True, expired_claims)\<close>
    by code_simp
  moreover assume "s = ''A'' \<or> s = ''RX''"
  ultimately show ?thesis
    by (auto simp add: DecodeJWT_def sample_env_def sample_claims_def)
qed

lemma sample_decode_valid:
  "s = ''A2'' \<or> s = ''R'' \<Longrightarrow> DecodeJWT (sample_env answer) s = Inr valid_claims"
proof -
  have \<open>Unmarshal (store_struct store_JWT_field) ''{"exp":300}''
          \<lparr>TokenType = [], Exp = 0, Jti = [], UserId = 0, Ip = [], ApiCredentialId = 0\<rparr>
        = (True, valid_claims)\<close>
    by code_simp
  moreover assume "s = ''A2'' \<or> s = ''R''"
  ultimately show ?thesis
    by (auto simp add: DecodeJWT_def sample_env_def sample_claims_def)
qed

lemma sample_expired: "IsExpired (time_Now (sample_env answer) k) expired_claims"
  by (simp add: sample_env_def IsExpired_def Unix_def Second_def expired_claims_def)

lemma sample_valid: "\<not> IsExpired (time_Now (sample_env answer) k) valid_claims"
  by (simp add: sample_env_def IsExpired_def Unix_def Second_def valid_claims_def)

lemma refresh_refresh_missing:
  assumes "RefreshToken c \<noteq> []"
      and "DecodeJWT e (RefreshToken c) = Inr jr"
      and "IsExpired (time_Now e (clock_reads w)) jr"
      and "ApiKey c = [] \<or> SecretKey c = []"
  shows "refresh_refresh e c w = (Some missing_credentials, c, read_clock w)"
  using assms by (auto simp add: refresh_refresh_def missing_credentials_def)

lemma sample_both_expired_refreshed:
  "handleAutoRefresh (sample_env (Some refreshed)) (sample_client ''A'' ''RX'') world0
     = (Some missing_credentials, sample_client ''A2'' ''RX'',
        \<lparr>clock_reads = 2, sent = [refresh_request ''RX'']\<rparr>)"
  by code_simp

lemma sample_both_expired_unauthorized:
  "handleAutoRefresh (sample_env (Some unauthorized)) (sample_client ''A'' ''RX'') world0
     = (Some (ApiError \<lparr>Message = ''API error (status 401): detail: token expired'',
                        StatusCode = 401, Details = Some [(''detail'', [''token expired''])]\<rparr>),
        sample_client ''A'' ''RX'', \<lparr>clock_reads = 1, sent = [refresh_request ''RX'']\<rparr>)"
  by code_simp

text \<open>
  Claim C2, as stated: with both tokens present and expired and no API key,
  \<open>handleAutoRefresh\<close> fails with the missing-credentials error before any network call.
  It does not. The access token is looked at first, and an expired access token is
  refreshed over the network before the refresh token is looked at. In the sample
  environment, with a server that grants the refresh, the missing-credentials error comes
  after the refresh request has been sent; with a server that answers 401, the call fails
  with that answer instead.
\<close>

theorem handleAutoRefresh_both_expired_counterexample:
  "AccessToken (sample_client ''A'' ''RX'') \<noteq> [] \<and> RefreshToken (sample_client ''A'' ''RX'') \<noteq> []
   \<and> ApiKey (sample_client ''A'' ''RX'') = []
   \<and> DecodeJWT (sample_env (Some refreshed)) ''A'' = Inr expired_claims
   \<and> DecodeJWT (sample_env (Some refreshed)) ''RX'' = Inr expired_claims
   \<and> IsExpired (time_Now (sample_env (Some refreshed)) 0) expired_claims
   \<and> IsExpired (time_Now (sample_env (Some refreshed)) 1) expired_claims
   \<and> handleAutoRefresh (sample_env (Some refreshed)) (sample_client ''A'' ''RX'') world0
       = (Some missing_credentials, sample_client ''A2'' ''RX'',
          \<lparr>clock_reads = 2, sent = [refresh_request ''RX'']\<rparr>)
   \<and> handleAutoRefresh (sample_env (Some unauthorized)) (sample_client ''A'' ''RX'') world0
       = (Some (ApiError \<lparr>Message = ''API error (status 401): detail: token expired'',
                          StatusCode = 401, Details = Some [(''detail'', [''token expired''])]\<rparr>),
          sample_client ''A'' ''RX'', \<lparr>clock_reads = 1, sent = [refresh_request ''RX'']\<rparr>)"
  by (simp add: sample_both_expired_refreshed sample_both_expired_unauthorized
      sample_decode_expired sample_expired) (simp add: sample_client_def)

text \<open>
  Claim C2, amended. Let the refresh token be present and expired and the API key or the
  secret key be empty. If the access token is absent, or present and not expired,
  \<open>handleAutoRefresh\<close> fails with the missing-credentials error and sends nothing: the world
  differs only in the clock having been read. If the access token is present and expired,
  \<open>handleAutoRefresh\<close> first runs \<open>RefreshAccessToken\<close>; when that fails its error is
  returned, and when it succeeds \<open>handleAutoRefresh\<close> fails with the missing-credentials
  error without a further network call.
\<close>

theorem handleAutoRefresh_missing_credentials:
  assumes rt: "RefreshToken c \<noteq> []"
      and dr: "DecodeJWT e (RefreshToken c) = Inr jr"
      and er: "\<forall>k. IsExpired (time_Now e k) jr"
      and keys: "ApiKey c = [] \<or> SecretKey c = []"
  shows "(AccessToken c = [] \<longrightarrow>
            handleAutoRefresh e c w
              = (Some missing_credentials, c, w\<lparr>clock_reads := clock_reads w + 1\<rparr>))
       \<and> (\<forall>ja. AccessToken c \<noteq> [] \<and> DecodeJWT e (AccessToken c) = Inr ja
                \<and> \<not> IsExpired (time_Now e (clock_reads w)) ja \<longrightarrow>
            handleAutoRefresh e c w
              = (Some missing_credentials, c, w\<lparr>clock_reads := clock_reads w + 2\<rparr>))
       \<and> (\<forall>ja. AccessToken c \<noteq> [] \<and> DecodeJWT e (AccessToken c) = Inr ja
                \<and> IsExpired (time_Now e (clock_reads w)) ja \<longrightarrow>
            handleAutoRefresh e c w
              = (case RefreshAccessToken e c (read_clock w) of
                   (Some err, c1, w1) \<Rightarrow> (Some err, c1, w1)
                 | (None, c1, w1) \<Rightarrow> (Some missing_credentials, c1, read_clock w1)))"
proof (intro conjI allI impI)
  assume "AccessToken c = []"
  then have "refresh_access e c w = (None, c, w)"
    by (simp add: refresh_access_def)
  moreover have "refresh_refresh e c w = (Some missing_credentials, c, read_clock w)"
    using rt dr er keys by (simp add: refresh_refresh_missing)
  ultimately show "handleAutoRefresh e c w
      = (Some missing_credentials, c, w\<lparr>clock_reads := clock_reads w + 1\<rparr>)"
    by (simp add: handleAutoRefresh_def read_clock_def)
next
  fix ja
  assume "AccessToken c \<noteq> [] \<and> DecodeJWT e (AccessToken c) = Inr ja
      \<and> \<not> IsExpired (time_Now e (clock_reads w)) ja"
  then have "refresh_access e c w = (None, c, read_clock w)"
    by (simp add: refresh_access_def)
  moreover have "refresh_refresh e c (read_clock w)
      = (Some missing_credentials, c, read_clock (read_clock w))"
    using rt dr er keys by (simp add: refresh_refresh_missing)
  ultimately show "handleAutoRefresh e c w
      = (Some missing_credentials, c, w\<lparr>clock_reads := clock_reads w + 2\<rparr>)"
    by (simp add: handleAutoRefresh_def read_clock_def)
next
  fix ja
  assume "AccessToken c \<noteq> [] \<and> DecodeJWT e (AccessToken c) = Inr ja
      \<and> IsExpired (time_Now e (clock_reads w)) ja"
  then have ra: "refresh_access e c w = RefreshAccessToken e c (read_clock w)"
    by (simp add: refresh_access_def)
  obtain err c1 w1 where r: "RefreshAccessToken e c (read_clock w) = (err, c1, w1)"
    by (metis prod_cases3)
  show "handleAutoRefresh e c w
      = (case RefreshAccessToken e c (read_clock w) of
           (Some err, c1, w1) \<Rightarrow> (Some err, c1, w1)
         | (None, c1, w1) \<Rightarrow> (Some missing_credentials, c1, read_clock w1))"
  proof (cases err)
    case (Some x)
    with ra r show ?thesis
      by (simp add: handleAutoRefresh_def)
  next
    case None
    have "RefreshToken c1 = RefreshToken c \<and> ApiKey c1 = ApiKey c \<and> SecretKey c1 = SecretKey c"
      using RefreshAccessToken_client [OF r]
      by (metis Client.select_convs(3,4,5) Client.surjective Client.update_convs(2))
    then have "refresh_refresh e c1 w1 = (Some missing_credentials, c1, read_clock w1)"
      using rt dr er keys by (simp add: refresh_refresh_missing)
    with ra r None show ?thesis
      by (simp add: handleAutoRefresh_def)
  qed
qed

lemma sample_refresh_expired:
  "RefreshAccessToken (sample_env (Some refreshed)) (sample_client ''A'' ''RX'') (read_clock world0)
     = (None, sample_client ''A2'' ''RX'', \<lparr>clock_reads = 1, sent = [refresh_request ''RX'']\<rparr>)"
  by code_simp

theorem handleAutoRefresh_missing_credentials_witness:
  "handleAutoRefresh (sample_env (Some refreshed)) (sample_client [] ''RX'') world0
     = (Some missing_credentials, sample_client [] ''RX'', \<lparr>clock_reads = 1, sent = []\<rparr>)
   \<and> handleAutoRefresh (sample_env (Some refreshed)) (sample_client ''A2'' ''RX'') world0
     = (Some missing_credentials, sample_client ''A2'' ''RX'', \<lparr>clock_reads = 2, sent = []\<rparr>)
   \<and> handleAutoRefresh (sample_env (Some refreshed)) (sample_client ''A'' ''RX'') world0
     = (Some missing_credentials, sample_client ''A2'' ''RX'',
        \<lparr>clock_reads = 2, sent = [refresh_request ''RX'']\<rparr>)"
proof -
  let ?e = "sample_env (Some refreshed)"
  have rt: "\<And>a. RefreshToken (sample_client a ''RX'') \<noteq> []"
    by (simp add: sample_client_def)
  have dr: "\<And>a. DecodeJWT ?e (RefreshToken (sample_client a ''RX'')) = Inr expired_claims"
    by (simp add: sample_client_def sample_decode_expired)
  have er: "\<forall>k. IsExpired (time_Now ?e k) expired_claims"
    by (simp add: sample_expired)
  have keys: "\<And>a. ApiKey (sample_client a ''RX'') = [] \<or> SecretKey (sample_client a ''RX'') = []"
    by (simp add: sample_client_def)
  have absent: "AccessToken (sample_client [] ''RX'') = []"
    by (simp add: sample_client_def)
  have fresh: "AccessToken (sample_client ''A2'' ''RX'') \<noteq> []
      \<and> DecodeJWT ?e (AccessToken (sample_client ''A2'' ''RX'')) = Inr valid_claims
      \<and> \<not> IsExpired (time_Now ?e (clock_reads world0)) valid_claims"
    by (simp add: sample_client_def sample_decode_valid sample_valid)
  have stale: "AccessToken (sample_client ''A'' ''RX'') \<noteq> []
      \<and> DecodeJWT ?e (AccessToken (sample_client ''A'' ''RX'')) = Inr expired_claims
      \<and> IsExpired (time_Now ?e (clock_reads world0)) expired_claims"
    by (simp add: sample_client_def sample_decode_expired sample_expired)
  show ?thesis
    using handleAutoRefresh_missing_credentials [OF rt dr er keys, of "[]" world0]
      handleAutoRefresh_missing_credentials [OF rt dr er keys, of "''A2''" world0]
      handleAutoRefresh_missing_credentials [OF rt dr er keys, of "''A''" world0]
      absent fresh stale
    by (simp add: sample_refresh_expired) (simp add: world0_def read_clock_def)
qed

section \<open>When the tokens are refreshed\<close>

lemma sample_stale_request:
  "Request (sample_env (Some refreshed)) (Unmarshal (store_struct store_RefreshTokenResponse_field))
      ((sample_client ''A'' ''R'')\<lparr>AutoRefresh := False\<rparr>) world0
      ''GET'' ''https://api.bitpin.ir/api/v1/wlt/wallets/'' True None None
    = (None, None, (sample_client ''A'' ''R'')\<lparr>AutoRefresh := False\<rparr>,
       \<lparr>clock_reads = 0, sent = [wallets_request ''A'']\<rparr>)"
  by code_simp

lemma sample_stale_refresh:
  "handleAutoRefresh (sample_env (Some refreshed))
      ((sample_client ''A'' ''R'')\<lparr>AutoRefresh := False\<rparr>) world0
    = (None, (sample_client ''A2'' ''R'')\<lparr>AutoRefresh := False\<rparr>,
       \<lparr>clock_reads = 2, sent = [refresh_request ''R'']\<rparr>)"
  by code_simp

text \<open>
  A call with \<open>auth = false\<close> builds the request and sends it; the client is not looked at
  beyond its base URL, and so the refresh flag of the client changes nothing in what
  \<open>RefreshAccessToken\<close>, \<open>Authenticate\<close> and \<open>handleAutoRefresh\<close> do.
\<close>

lemma Request_core_unauth_eq:
  "Request_core h e u c w m url False b r
     = (case new_request e m url b of
          Inl err \<Rightarrow> (Some err, r, c, w)
        | Inr req \<Rightarrow> (case dispatch e u w req r of (err, r', w2) \<Rightarrow> (err, r', c, w2)))"
  by (simp add: Request_core_def authorize_unauth split: sum.splits)

lemma RefreshAccessToken_flag:
  "RefreshAccessToken e (c\<lparr>AutoRefresh := b\<rparr>) w
     = (case RefreshAccessToken e c w of (err, c1, w1) \<Rightarrow> (err, c1\<lparr>AutoRefresh := b\<rparr>, w1))"
  by (simp add: RefreshAccessToken_def Request_core_unauth_eq createApiURI_def Let_def
      split: sum.splits prod.splits option.splits)

lemma Authenticate_flag:
  "Authenticate e (c\<lparr>AutoRefresh := b\<rparr>) w k s
     = (case Authenticate e c w k s of (res, c1, w1) \<Rightarrow> (res, c1\<lparr>AutoRefresh := b\<rparr>, w1))"
  by (simp add: Authenticate_def Request_core_unauth_eq createApiURI_def Let_def
      split: sum.splits prod.splits option.splits)

lemma refresh_access_flag:
  "refresh_access e (c\<lparr>AutoRefresh := b\<rparr>) w
     = (case refresh_access e c w of (err, c1, w1) \<Rightarrow> (err, c1\<lparr>AutoRefresh := b\<rparr>, w1))"
  by (simp add: refresh_access_def RefreshAccessToken_flag split: sum.splits prod.splits)

lemma refresh_refresh_flag:
  "refresh_refresh e (c\<lparr>AutoRefresh := b\<rparr>) w
     = (case refresh_refresh e c w of (err, c1, w1) \<Rightarrow> (err, c1\<lparr>AutoRefresh := b\<rparr>, w1))"
  by (simp add: refresh_refresh_def Authenticate_flag split: sum.splits prod.splits)

lemma handleAutoRefresh_flag:
  "handleAutoRefresh e (c\<lparr>AutoRefresh := b\<rparr>) w
     = (case handleAutoRefresh e c w of (err, c1, w1) \<Rightarrow> (err, c1\<lparr>AutoRefresh := b\<rparr>, w1))"
  by (simp add: handleAutoRefresh_def refresh_access_flag refresh_refresh_flag
      split: prod.splits option.splits)

lemma client_of_flag:
  "client_of (opts\<lparr>opt_AutoRefresh := b\<rparr>) = (client_of opts)\<lparr>AutoRefresh := b\<rparr>"
  by (simp add: client_of_def)

lemma NewClient_flag:
  "NewClient e (opts\<lparr>opt_AutoRefresh := b\<rparr>) w
     = (case NewClient e opts w of
          (Inl err, w1) \<Rightarrow> (Inl err, w1)
        | (Inr c, w1) \<Rightarrow> (Inr (c\<lparr>AutoRefresh := b\<rparr>), w1))"
  by (simp add: NewClient_def client_of_flag handleAutoRefresh_flag Authenticate_flag
      split: prod.splits option.splits sum.splits)

text \<open>With the flag clear the refresh procedure is not reached, whatever it is.\<close>

lemma Request_core_flag_clear:
  "\<not> AutoRefresh c \<Longrightarrow>
     Request_core h e u c w m url auth b r = Request_core no_refresh e u c w m url auth b r"
  by (simp add: Request_core_def authorize_def no_refresh_def split: sum.splits)

text \<open>
  Claim C5, as stated: every call of \<open>Request\<close> with \<open>auth\<close> true runs \<open>handleAutoRefresh\<close>
  before it attaches the \<open>Authorization\<close> header. \<open>Request\<close> runs it only when the client's
  \<open>AutoRefresh\<close> flag is set. With the flag clear and an expired access token \<open>A\<close>, the
  request goes out with \<open>Bearer A\<close>, the clock has not been read and no refresh request
  has been sent, although \<open>handleAutoRefresh\<close> in the same state would have fetched the
  token \<open>A2\<close>.
\<close>

theorem Request_without_AutoRefresh_counterexample:
  "Request (sample_env (Some refreshed)) (Unmarshal (store_struct store_RefreshTokenResponse_field))
      ((sample_client ''A'' ''R'')\<lparr>AutoRefresh := False\<rparr>) world0
      ''GET'' ''https://api.bitpin.ir/api/v1/wlt/wallets/'' True None None
    = (None, None, (sample_client ''A'' ''R'')\<lparr>AutoRefresh := False\<rparr>,
       \<lparr>clock_reads = 0, sent = [wallets_request ''A'']\<rparr>)
   \<and> handleAutoRefresh (sample_env (Some refreshed))
        ((sample_client ''A'' ''R'')\<lparr>AutoRefresh := False\<rparr>) world0
      = (None, (sample_client ''A2'' ''R'')\<lparr>AutoRefresh := False\<rparr>,
         \<lparr>clock_reads = 2, sent = [refresh_request ''R'']\<rparr>)"
  by (simp add: sample_stale_request sample_stale_refresh)

text \<open>
  Claim C5, amended. Take a call of \<open>Request\<close> with \<open>auth\<close> true whose request has been
  built. If the client's \<open>AutoRefresh\<close> flag is set, \<open>handleAutoRefresh\<close> runs first: its
  failure is returned wrapped, and otherwise \<open>assertAuth\<close> and the \<open>Authorization\<close> header use
  the client it left behind, and the request is sent in the world it left behind. If the
  flag is clear, \<open>handleAutoRefresh\<close> does not run: \<open>assertAuth\<close> and the header use the
  client as it is, the request is sent in the world as it is, and the result is the same
  whatever the refresh procedure would do. \<open>NewClient\<close> runs \<open>handleAutoRefresh\<close> once, on
  the client made from the options (so in particular when tokens were supplied), before
  anything else goes to the network, and it does so whether the \<open>AutoRefresh\<close> option is
  set or not: the option changes the flag of the client that is returned and nothing
  else. The calls with \<open>auth\<close> false, which are those of \<open>Authenticate\<close> and
  \<open>RefreshAccessToken\<close>, never run it.
\<close>

theorem Request_refreshes_before_authorizing:
  "(\<forall>req. new_request e method url body = Inr req \<and> AutoRefresh c \<longrightarrow>
      Request e unmarshal c w method url True body result
        = (case handleAutoRefresh e c w of
             (Some err, c1, w1) \<Rightarrow>
               (Some (GoBitpinError ''failed to refresh authentication'' (Some err)), result, c1, w1)
           | (None, c1, w1) \<Rightarrow>
               (case assertAuth c1 of
                  Some err \<Rightarrow>
                    (Some (GoBitpinError ''authentication validation failed'' (Some err)), result, c1, w1)
                | None \<Rightarrow>
                    (case dispatch e unmarshal w1
                            (set_header ''Authorization'' (''Bearer '' @ AccessToken c1) req) result of
                       (err, result', w2) \<Rightarrow> (err, result', c1, w2)))))
   \<and> NewClient e opts w0
       = (case handleAutoRefresh e (client_of opts) w0 of
            (Some err, c1, w1) \<Rightarrow> (Inl err, w1)
          | (None, c1, w1) \<Rightarrow>
              if opt_ApiKey opts \<noteq> [] \<and> opt_SecretKey opts \<noteq> [] then
                (case Authenticate e c1 w1 (opt_ApiKey opts) (opt_SecretKey opts) of
                   (Inl err, c2, w2) \<Rightarrow> (Inl err, w2)
                 | (Inr resp, c2, w2) \<Rightarrow> (Inr c2, w2))
              else (Inr c1, w1))
   \<and> (\<forall>req. new_request e method url body = Inr req \<and> \<not> AutoRefresh c \<longrightarrow>
        Request e unmarshal c w method url True body result
          = (case assertAuth c of
               Some err \<Rightarrow>
                 (Some (GoBitpinError ''authentication validation failed'' (Some err)), result, c, w)
             | None \<Rightarrow>
                 (case dispatch e unmarshal w
                         (set_header ''Authorization'' (''Bearer '' @ AccessToken c) req) result of
                    (err, result', w2) \<Rightarrow> (err, result', c, w2))))
   \<and> (\<forall>h. \<not> AutoRefresh c \<longrightarrow>
        Request_core h e unmarshal c w method url True body result
          = Request e unmarshal c w method url True body result)
   \<and> (\<forall>h. Request_core h e unmarshal c w method url False body result
             = Request e unmarshal c w method url False body result)
   \<and> (\<forall>b. NewClient e (opts\<lparr>opt_AutoRefresh := b\<rparr>) w0
             = (case NewClient e opts w0 of
                  (Inl err, w1) \<Rightarrow> (Inl err, w1)
                | (Inr c', w1) \<Rightarrow> (Inr (c'\<lparr>AutoRefresh := b\<rparr>), w1)))"
proof -
  have set: "\<forall>req. new_request e method url body = Inr req \<and> AutoRefresh c \<longrightarrow>
      Request e unmarshal c w method url True body result
        = (case handleAutoRefresh e c w of
             (Some err, c1, w1) \<Rightarrow>
               (Some (GoBitpinError ''failed to refresh authentication'' (Some err)), result, c1, w1)
           | (None, c1, w1) \<Rightarrow>
               (case assertAuth c1 of
                  Some err \<Rightarrow>
                    (Some (GoBitpinError ''authentication validation failed'' (Some err)), result, c1, w1)
                | None \<Rightarrow>
                    (case dispatch e unmarshal w1
                            (set_header ''Authorization'' (''Bearer '' @ AccessToken c1) req) result of
                       (err, result', w2) \<Rightarrow> (err, result', c1, w2))))"
    by (auto simp add: Request_def Request_core_def authorize_def
        split: prod.splits option.splits sum.splits)
  have construction: "NewClient e opts w0
       = (case handleAutoRefresh e (client_of opts) w0 of
            (Some err, c1, w1) \<Rightarrow> (Inl err, w1)
          | (None, c1, w1) \<Rightarrow>
              if opt_ApiKey opts \<noteq> [] \<and> opt_SecretKey opts \<noteq> [] then
                (case Authenticate e c1 w1 (opt_ApiKey opts) (opt_SecretKey opts) of
                   (Inl err, c2, w2) \<Rightarrow> (Inl err, w2)
                 | (Inr resp, c2, w2) \<Rightarrow> (Inr c2, w2))
              else (Inr c1, w1))"
    by (auto simp add: NewClient_def split: prod.splits option.splits sum.splits)
  have clear: "\<forall>req. new_request e method url body = Inr req \<and> \<not> AutoRefresh c \<longrightarrow>
        Request e unmarshal c w method url True body result
          = (case assertAuth c of
               Some err \<Rightarrow>
                 (Some (GoBitpinError ''authentication validation failed'' (Some err)), result, c, w)
             | None \<Rightarrow>
                 (case dispatch e unmarshal w
                         (set_header ''Authorization'' (''Bearer '' @ AccessToken c) req) result of
                    (err, result', w2) \<Rightarrow> (err, result', c, w2)))"
    by (auto simp add: Request_def Request_core_def authorize_def
        split: prod.splits option.splits sum.splits)
  have any: "\<forall>h. \<not> AutoRefresh c \<longrightarrow>
        Request_core h e unmarshal c w method url True body result
          = Request e unmarshal c w method url True body result"
    by (simp add: Request_def Request_core_def authorize_def split: sum.splits)
  have unauth: "\<forall>h. Request_core h e unmarshal c w method url False body result
             = Request e unmarshal c w method url False body result"
    by (simp add: Request_def Request_core_unauth_eq)
  have option: "\<forall>b. NewClient e (opts\<lparr>opt_AutoRefresh := b\<rparr>) w0
             = (case NewClient e opts w0 of
                  (Inl err, w1) \<Rightarrow> (Inl err, w1)
                | (Inr c', w1) \<Rightarrow> (Inr (c'\<lparr>AutoRefresh := b\<rparr>), w1))"
    by (simp add: NewClient_flag)
  from set construction clear any unauth option show ?thesis
    by (intro conjI)
qed

lemma sample_new_request:
  "new_request (sample_env (Some refreshed)) ''GET'' ''https://api.bitpin.ir/api/v1/wlt/wallets/'' None
     = Inr \<lparr>req_method = ''GET'', req_url = ''https://api.bitpin.ir/api/v1/wlt/wallets/'',
            req_body = [], req_header = [(''Content-Type'', ''application/json'')]\<rparr>"
  by code_simp

lemma sample_access_expired:
  "handleAutoRefresh (sample_env (Some refreshed)) (sample_client ''A'' ''R'') world0
     = (None, sample_client ''A2'' ''R'', \<lparr>clock_reads = 2, sent = [refresh_request ''R'']\<rparr>)"
  by code_simp

lemma sample_header:
  "set_header ''Authorization'' (''Bearer '' @ AccessToken (sample_client ''A2'' ''R''))
     \<lparr>req_method = ''GET'', req_url = ''https://api.bitpin.ir/api/v1/wlt/wallets/'',
      req_body = [], req_header = [(''Content-Type'', ''application/json'')]\<rparr>
   = wallets_request ''A2''"
  by (simp add: set_header_def sample_client_def wallets_request_def)

lemma sample_dispatch:
  "dispatch (sample_env (Some refreshed)) (Unmarshal (store_struct store_RefreshTokenResponse_field))
      \<lparr>clock_reads = 2, sent = [refresh_request ''R'']\<rparr> (wallets_request ''A2'') None
    = (None, None, \<lparr>clock_reads = 2, sent = [refresh_request ''R'', wallets_request ''A2'']\<rparr>)"
  by code_simp

lemma sample_client_of:
  "client_of (sample_options a r [] [] b) = sample_client a r"
  by (simp add: client_of_def sample_options_def sample_client_def)

lemma sample_flag_clear:
  "\<not> AutoRefresh ((sample_client ''A2'' ''R'')\<lparr>AutoRefresh := False\<rparr>)
   \<and> assertAuth ((sample_client ''A2'' ''R'')\<lparr>AutoRefresh := False\<rparr>) = None
   \<and> set_header ''Authorization''
        (''Bearer '' @ AccessToken ((sample_client ''A2'' ''R'')\<lparr>AutoRefresh := False\<rparr>))
        \<lparr>req_method = ''GET'', req_url = ''https://api.bitpin.ir/api/v1/wlt/wallets/'',
         req_body = [], req_header = [(''Content-Type'', ''application/json'')]\<rparr>
      = wallets_request ''A2''"
  by (simp add: assertAuth_def set_header_def sample_client_def wallets_request_def)

lemma sample_dispatch_at_once:
  "dispatch (sample_env (Some refreshed)) (Unmarshal (store_struct store_RefreshTokenResponse_field))
      world0 (wallets_request ''A2'') None
    = (None, None, \<lparr>clock_reads = 0, sent = [wallets_request ''A2'']\<rparr>)"
  by code_simp

theorem Request_refreshes_before_authorizing_witness:
  "AutoRefresh (sample_client ''A'' ''R'')
   \<and> Request (sample_env (Some refreshed)) (Unmarshal (store_struct store_RefreshTokenResponse_field))
        (sample_client ''A'' ''R'') world0
        ''GET'' ''https://api.bitpin.ir/api/v1/wlt/wallets/'' True None None
      = (None, None, sample_client ''A2'' ''R'',
         \<lparr>clock_reads = 2, sent = [refresh_request ''R'', wallets_request ''A2'']\<rparr>)
   \<and> NewClient (sample_env (Some refreshed)) (sample_options ''A'' ''R'' [] [] False) world0
      = (Inr (sample_client ''A2'' ''R''), \<lparr>clock_reads = 2, sent = [refresh_request ''R'']\<rparr>)
   \<and> \<not> AutoRefresh ((sample_client ''A2'' ''R'')\<lparr>AutoRefresh := False\<rparr>)
   \<and> Request (sample_env (Some refreshed)) (Unmarshal (store_struct store_RefreshTokenResponse_field))
        ((sample_client ''A2'' ''R'')\<lparr>AutoRefresh := False\<rparr>) world0
        ''GET'' ''https://api.bitpin.ir/api/v1/wlt/wallets/'' True None None
      = (None, None, (sample_client ''A2'' ''R'')\<lparr>AutoRefresh := False\<rparr>,
         \<lparr>clock_reads = 0, sent = [wallets_request ''A2'']\<rparr>)
   \<and> NewClient (sample_env (Some refreshed))
        ((sample_options ''A'' ''R'' [] [] False)\<lparr>opt_AutoRefresh := False\<rparr>) world0
      = (Inr ((sample_client ''A2'' ''R'')\<lparr>AutoRefresh := False\<rparr>),
         \<lparr>clock_reads = 2, sent = [refresh_request ''R'']\<rparr>)"
proof -
  let ?e = "sample_env (Some refreshed)"
  let ?u = "Unmarshal (store_struct store_RefreshTokenResponse_field)"
  let ?opts = "sample_options ''A'' ''R'' [] [] False"
  let ?off = "(sample_client ''A2'' ''R'')\<lparr>AutoRefresh := False\<rparr>"
  note spec = Request_refreshes_before_authorizing
      [of ?e "''GET''" "''https://api.bitpin.ir/api/v1/wlt/wallets/''" None
        "sample_client ''A'' ''R''" ?u world0 None ?opts world0]
  note spec_off = Request_refreshes_before_authorizing
      [of ?e "''GET''" "''https://api.bitpin.ir/api/v1/wlt/wallets/''" None
        ?off ?u world0 None ?opts world0]
  have flag: "AutoRefresh (sample_client ''A'' ''R'')"
    by (simp add: sample_client_def)
  have present: "assertAuth (sample_client ''A2'' ''R'') = None"
    by (simp add: assertAuth_def sample_client_def)
  have keys: "opt_ApiKey ?opts = []"
    by (simp add: sample_options_def)
  from spec sample_new_request flag
  have "Request ?e ?u (sample_client ''A'' ''R'') world0
          ''GET'' ''https://api.bitpin.ir/api/v1/wlt/wallets/'' True None None
        = (case handleAutoRefresh ?e (sample_client ''A'' ''R'') world0 of
             (Some err, c1, w1) \<Rightarrow>
               (Some (GoBitpinError ''failed to refresh authentication'' (Some err)), None, c1, w1)
           | (None, c1, w1) \<Rightarrow>
               (case assertAuth c1 of
                  Some err \<Rightarrow>
                    (Some (GoBitpinError ''authentication validation failed'' (Some err)), None, c1, w1)
                | None \<Rightarrow>
                    (case dispatch ?e ?u w1
                            (set_header ''Authorization'' (''Bearer '' @ AccessToken c1)
                               \<lparr>req_method = ''GET'',
                                req_url = ''https://api.bitpin.ir/api/v1/wlt/wallets/'',
                                req_body = [],
                                req_header = [(''Content-Type'', ''application/json'')]\<rparr>) None of
                       (err, result', w2) \<Rightarrow> (err, result', c1, w2))))"
    by blast
  then have request: "Request ?e ?u (sample_client ''A'' ''R'') world0
          ''GET'' ''https://api.bitpin.ir/api/v1/wlt/wallets/'' True None None
        = (None, None, sample_client ''A2'' ''R'',
           \<lparr>clock_reads = 2, sent = [refresh_request ''R'', wallets_request ''A2'']\<rparr>)"
    by (simp only: sample_access_expired present sample_header sample_dispatch prod.case option.case)
  from spec have "NewClient ?e ?opts world0
       = (case handleAutoRefresh ?e (client_of ?opts) world0 of
            (Some err, c1, w1) \<Rightarrow> (Inl err, w1)
          | (None, c1, w1) \<Rightarrow>
              if opt_ApiKey ?opts \<noteq> [] \<and> opt_SecretKey ?opts \<noteq> [] then
                (case Authenticate ?e c1 w1 (opt_ApiKey ?opts) (opt_SecretKey ?opts) of
                   (Inl err, c2, w2) \<Rightarrow> (Inl err, w2)
                 | (Inr resp, c2, w2) \<Rightarrow> (Inr c2, w2))
              else (Inr c1, w1))"
    by blast
  then have construction: "NewClient ?e ?opts world0
      = (Inr (sample_client ''A2'' ''R''), \<lparr>clock_reads = 2, sent = [refresh_request ''R'']\<rparr>)"
    by (simp add: sample_client_of sample_access_expired keys)
  have clear: "\<not> AutoRefresh ?off"
    using sample_flag_clear by blast
  from spec_off sample_new_request clear
  have "Request ?e ?u ?off world0
          ''GET'' ''https://api.bitpin.ir/api/v1/wlt/wallets/'' True None None
        = (case assertAuth ?off of
             Some err \<Rightarrow>
               (Some (GoBitpinError ''authentication validation failed'' (Some err)), None, ?off, world0)
           | None \<Rightarrow>
               (case dispatch ?e ?u world0
                       (set_header ''Authorization'' (''Bearer '' @ AccessToken ?off)
                          \<lparr>req_method = ''GET'',
                           req_url = ''https://api.bitpin.ir/api/v1/wlt/wallets/'',
                           req_body = [],
                           req_header = [(''Content-Type'', ''application/json'')]\<rparr>) None of
                  (err, result', w2) \<Rightarrow> (err, result', ?off, w2)))"
    by blast
  then have request_off: "Request ?e ?u ?off world0
          ''GET'' ''https://api.bitpin.ir/api/v1/wlt/wallets/'' True None None
        = (None, None, ?off, \<lparr>clock_reads = 0, sent = [wallets_request ''A2'']\<rparr>)"
    by (simp only: sample_flag_clear sample_dispatch_at_once prod.case option.case)
  from spec have "NewClient ?e (?opts\<lparr>opt_AutoRefresh := False\<rparr>) world0
       = (case NewClient ?e ?opts world0 of
            (Inl err, w1) \<Rightarrow> (Inl err, w1)
          | (Inr c', w1) \<Rightarrow> (Inr (c'\<lparr>AutoRefresh := False\<rparr>), w1))"
    by blast
  then have construction_off: "NewClient ?e (?opts\<lparr>opt_AutoRefresh := False\<rparr>) world0
      = (Inr ?off, \<lparr>clock_reads = 2, sent = [refresh_request ''R'']\<rparr>)"
    by (simp add: construction)
  from flag request construction clear request_off construction_off show ?thesis
    by blast
qed

section \<open>Authentication at construction\<close>

lemma Authenticate_client:
  assumes "Authenticate e c w k s = (Inr resp, c', w')"
  shows "c' = c\<lparr>AccessToken := Access resp, RefreshToken := Refresh resp\<rparr>"
proof -
  obtain err1 r1 c1 w1 where rq:
    "Request_core no_refresh e (Unmarshal (store_struct store_AuthenticationResponse_field))
                c w ''POST'' (createApiURI c ''/usr/authenticate/'' Version) False
                (Some (StringMap [(''api_key'', k), (''secret_key'', s)]))
                (Some \<lparr>Refresh = [], Access = []\<rparr>) = (err1, r1, c1, w1)"
    by (metis prod_cases4)
  then have "c1 = c" by (rule Request_core_unauth_client)
  with rq assms show ?thesis
    by (auto simp add: Authenticate_def Let_def split: option.splits if_splits)
qed

lemma sample_malformed_token:
  "NewClient (sample_env (Some authenticated)) (sample_options ''garbage'' [] ''k'' ''s'' True) world0
     = (Inl (ExtError ''failed to parse token''), world0)"
  by code_simp

text \<open>
  Claim C9, as stated: \<open>NewClient\<close> attempts the full authentication exactly when both
  the API key and the secret key are non-empty. It attempts it only if
  \<open>handleAutoRefresh\<close> has succeeded before. With both keys given and an access token the
  token library cannot parse, \<open>NewClient\<close> returns the decoding error and sends nothing.
\<close>

theorem NewClient_malformed_token_counterexample:
  "opt_ApiKey (sample_options ''garbage'' [] ''k'' ''s'' True) \<noteq> []
   \<and> opt_SecretKey (sample_options ''garbage'' [] ''k'' ''s'' True) \<noteq> []
   \<and> NewClient (sample_env (Some authenticated)) (sample_options ''garbage'' [] ''k'' ''s'' True) world0
       = (Inl (ExtError ''failed to parse token''), world0)
   \<and> sent world0 = []"
  by (simp add: sample_malformed_token) (simp add: sample_options_def world0_def)

text \<open>
  Claim C9, amended. \<open>NewClient\<close> does not depend on the \<open>AutoAuth\<close> option. When the
  \<open>handleAutoRefresh\<close> of the construction fails, \<open>NewClient\<close> returns its error. When it
  succeeds, \<open>NewClient\<close> calls \<open>Authenticate\<close> exactly when both the API key and the secret
  key are non-empty, whatever \<open>AutoAuth\<close> is, and a successful \<open>Authenticate\<close> replaces the
  access token and the refresh token of the client, supplied by the caller or not, by
  those of the response.
\<close>

theorem NewClient_authenticates_with_keys:
  "NewClient e (opts\<lparr>opt_AutoAuth := b\<rparr>) w = NewClient e opts w
   \<and> (\<forall>err c1 w1. handleAutoRefresh e (client_of opts) w = (Some err, c1, w1) \<longrightarrow>
         NewClient e opts w = (Inl err, w1))
   \<and> (\<forall>c1 w1. handleAutoRefresh e (client_of opts) w = (None, c1, w1) \<longrightarrow>
         (opt_ApiKey opts \<noteq> [] \<and> opt_SecretKey opts \<noteq> [] \<longrightarrow>
            NewClient e opts w
              = (case Authenticate e c1 w1 (opt_ApiKey opts) (opt_SecretKey opts) of
                   (Inl err, c2, w2) \<Rightarrow> (Inl err, w2)
                 | (Inr resp, c2, w2) \<Rightarrow> (Inr c2, w2)))
         \<and> (opt_ApiKey opts = [] \<or> opt_SecretKey opts = [] \<longrightarrow>
              NewClient e opts w = (Inr c1, w1)))
   \<and> (\<forall>c1 w1 resp c2 w2.
         Authenticate e c1 w1 (opt_ApiKey opts) (opt_SecretKey opts) = (Inr resp, c2, w2) \<longrightarrow>
         c2 = c1\<lparr>AccessToken := Access resp, RefreshToken := Refresh resp\<rparr>)"
proof -
  have "client_of (opts\<lparr>opt_AutoAuth := b\<rparr>) = client_of opts"
    by (simp add: client_of_def)
  then have "NewClient e (opts\<lparr>opt_AutoAuth := b\<rparr>) w = NewClient e opts w"
    by (simp add: NewClient_def split: prod.splits option.splits)
  then show ?thesis
    by (auto simp add: NewClient_def dest: Authenticate_client)
qed

lemma sample_construction_refresh:
  "handleAutoRefresh (sample_env (Some authenticated))
      (client_of (sample_options ''A2'' ''R'' ''k'' ''s'' False)) world0
     = (None, client_of (sample_options ''A2'' ''R'' ''k'' ''s'' False),
        \<lparr>clock_reads = 2, sent = []\<rparr>)"
  by code_simp

lemma sample_construction_authenticate:
  "Authenticate (sample_env (Some authenticated))
      (client_of (sample_options ''A2'' ''R'' ''k'' ''s'' False)) \<lparr>clock_reads = 2, sent = []\<rparr> ''k'' ''s''
     = (Inr \<lparr>Refresh = ''R3'', Access = ''A3''\<rparr>,
        \<lparr>BaseUrl = default_BaseUrl, AccessToken = ''A3'', RefreshToken = ''R3'',
         ApiKey = ''k'', SecretKey = ''s'', AutoRefresh = True\<rparr>,
        \<lparr>clock_reads = 2, sent = [authenticate_request ''k'' ''s'']\<rparr>)"
  by code_simp

lemma sample_construction_no_secret:
  "handleAutoRefresh (sample_env (Some authenticated))
      (client_of (sample_options ''A2'' ''R'' ''k'' [] True)) world0
     = (None, client_of (sample_options ''A2'' ''R'' ''k'' [] True), \<lparr>clock_reads = 2, sent = []\<rparr>)"
  by code_simp

lemma sample_construction_garbage:
  "handleAutoRefresh (sample_env (Some authenticated))
      (client_of (sample_options ''garbage'' [] [] [] True)) world0
     = (Some (ExtError ''failed to parse token''),
        client_of (sample_options ''garbage'' [] [] [] True), world0)"
  by code_simp

theorem NewClient_authenticates_with_keys_witness:
  "NewClient (sample_env (Some authenticated)) (sample_options ''A2'' ''R'' ''k'' ''s'' False) world0
     = (Inr \<lparr>BaseUrl = default_BaseUrl, AccessToken = ''A3'', RefreshToken = ''R3'',
             ApiKey = ''k'', SecretKey = ''s'', AutoRefresh = True\<rparr>,
        \<lparr>clock_reads = 2, sent = [authenticate_request ''k'' ''s'']\<rparr>)
   \<and> NewClient (sample_env (Some authenticated)) (sample_options ''A2'' ''R'' ''k'' ''s'' True) world0
     = NewClient (sample_env (Some authenticated)) (sample_options ''A2'' ''R'' ''k'' ''s'' False) world0
   \<and> NewClient (sample_env (Some authenticated)) (sample_options ''A2'' ''R'' ''k'' [] True) world0
     = (Inr (client_of (sample_options ''A2'' ''R'' ''k'' [] True)), \<lparr>clock_reads = 2, sent = []\<rparr>)
   \<and> NewClient (sample_env (Some authenticated)) (sample_options ''garbage'' [] [] [] True) world0
     = (Inl (ExtError ''failed to parse token''), world0)"
proof -
  let ?e = "sample_env (Some authenticated)"
  have flag: "(sample_options ''A2'' ''R'' ''k'' ''s'' False)\<lparr>opt_AutoAuth := True\<rparr>
      = sample_options ''A2'' ''R'' ''k'' ''s'' True"
    by (simp add: sample_options_def)
  have keys: "opt_ApiKey (sample_options ''A2'' ''R'' ''k'' ''s'' False) = ''k''
      \<and> opt_SecretKey (sample_options ''A2'' ''R'' ''k'' ''s'' False) = ''s''
      \<and> opt_SecretKey (sample_options ''A2'' ''R'' ''k'' [] True) = []"
    by (simp add: sample_options_def)
  show ?thesis
    using NewClient_authenticates_with_keys
        [where e = ?e and opts = "sample_options ''A2'' ''R'' ''k'' ''s'' False" and b = True
          and w = world0]
      NewClient_authenticates_with_keys
        [where e = ?e and opts = "sample_options ''A2'' ''R'' ''k'' [] True" and b = True
          and w = world0]
      NewClient_authenticates_with_keys
        [where e = ?e and opts = "sample_options ''garbage'' [] [] [] True" and b = True
          and w = world0]
    by (simp add: flag keys sample_construction_refresh sample_construction_authenticate
        sample_construction_no_secret sample_construction_garbage)
qed

end
